theory Spec2Isabelle
  imports Main
begin

section \<open>PostPro: the milestone scheduling store (src/lib/store.ts)\<close>

text \<open>
  A shallow embedding of the scheduling core of the store: the command parser, the date
  parser, the dependency checker and the store actions \<open>moveMilestone\<close>,
  \<open>processCommand\<close>, \<open>fetchProjectData\<close> and \<open>loadDemoData\<close>.

  Conventions of the embedding.
  \<^item> A JavaScript string is a \<open>string\<close>; the character predicates and the case
    conversions below are the ASCII ones, so the embedding speaks about ASCII text.
  \<^item> A JavaScript \<open>Date\<close> is its time value: \<open>Date t\<close> with \<open>t\<close> the milliseconds
    since the epoch, read in local time, or \<open>Invalid_Date\<close> (time value NaN). Local time
    is taken at a fixed offset from UTC (no daylight-saving shifts) and the time value is
    not clipped to the range a JavaScript engine supports.
  \<^item> What the platform supplies and the repository does not define is a parameter,
    collected in the record \<open>platform\<close>: the clock, the locale's date format, the
    library's ISO parser, the constructor \<open>new Date(string)\<close>; the backend's answers are
    arguments of the actions that await them.
  \<^item> The store's state is passed explicitly: an action takes the state and returns its
    result together with the new state.
\<close>

subsection \<open>Dates\<close>

datatype Date = Date int | Invalid_Date

text \<open>date-fns \<open>isAfter\<close> and \<open>isBefore\<close> compare time values; a comparison with NaN is false.\<close>

fun isAfter :: "Date \<Rightarrow> Date \<Rightarrow> bool" where
  "isAfter (Date a) (Date b) = (a > b)"
| "isAfter _ _ = False"

fun isBefore :: "Date \<Rightarrow> Date \<Rightarrow> bool" where
  "isBefore (Date a) (Date b) = (a < b)"
| "isBefore _ _ = False"

definition msPerDay :: int where
  "msPerDay = 86400000"

text \<open>
  The calendar of ECMAScript: \<open>DayFromYear y\<close> is the day number of 1 January of year \<open>y\<close>,
  \<open>YearFromDay d\<close> the year that day \<open>d\<close> falls in, months are counted from 0.
\<close>

definition isLeapYear :: "int \<Rightarrow> bool" where
  "isLeapYear y = (y mod 4 = 0 \<and> (y mod 100 \<noteq> 0 \<or> y mod 400 = 0))"

definition DayFromYear :: "int \<Rightarrow> int" where
  "DayFromYear y = 365 * (y - 1970) + (y - 1969) div 4 - (y - 1901) div 100 + (y - 1601) div 400"

definition YearFromDay :: "int \<Rightarrow> int" where
  "YearFromDay d =
     (let lo = 1970 + min (d div 365) (d div 366);
          hi = 1970 + max (d div 365) (d div 366)
      in case find (\<lambda>y. DayFromYear y \<le> d \<and> d < DayFromYear (y + 1)) [lo..hi] of
           Some y \<Rightarrow> y | None \<Rightarrow> lo)"

definition daysBeforeMonth :: "int \<Rightarrow> nat \<Rightarrow> int" where
  "daysBeforeMonth y m =
     [0, 31, 59, 90, 120, 151, 181, 212, 243, 273, 304, 334] ! m
     + (if 2 \<le> m \<and> isLeapYear y then 1 else 0)"

definition MonthFromDay :: "int \<Rightarrow> nat" where
  "MonthFromDay d =
     (let y = YearFromDay d
      in length (filter (\<lambda>m. daysBeforeMonth y m \<le> d - DayFromYear y) [1..<12]))"

definition DateFromDay :: "int \<Rightarrow> int" where
  "DateFromDay d =
     (let y = YearFromDay d in d - DayFromYear y - daysBeforeMonth y (MonthFromDay d) + 1)"

definition MakeDay :: "int \<Rightarrow> int \<Rightarrow> int \<Rightarrow> int" where
  "MakeDay year month date =
     (let ym = year + month div 12; mn = nat (month mod 12)
      in DayFromYear ym + daysBeforeMonth ym mn + date - 1)"

text \<open>
  \<open>new Date(year, month, day)\<close>: local midnight of that day, months and days out of range
  carried over; a year from 0 to 99 stands for 1900 plus that year; no date when the year
  is NaN (\<open>None\<close>).
\<close>

definition new_Date :: "int option \<Rightarrow> int \<Rightarrow> int \<Rightarrow> Date" where
  "new_Date year month day =
     (case year of
        None \<Rightarrow> Invalid_Date
      | Some y \<Rightarrow>
          (let yr = (if 0 \<le> y \<and> y \<le> 99 then 1900 + y else y)
           in Date (MakeDay yr month day * msPerDay)))"

text \<open>The getters return a number, NaN (\<open>None\<close>) on an invalid date.\<close>

fun getDay :: "Date \<Rightarrow> int option" where
  "getDay (Date t) = Some ((t div msPerDay + 4) mod 7)"
| "getDay Invalid_Date = None"

fun getFullYear :: "Date \<Rightarrow> int option" where
  "getFullYear (Date t) = Some (YearFromDay (t div msPerDay))"
| "getFullYear Invalid_Date = None"

fun getMonth :: "Date \<Rightarrow> int option" where
  "getMonth (Date t) = Some (int (MonthFromDay (t div msPerDay)))"
| "getMonth Invalid_Date = None"

fun getDate :: "Date \<Rightarrow> int option" where
  "getDate (Date t) = Some (DateFromDay (t div msPerDay))"
| "getDate Invalid_Date = None"

text \<open>date-fns \<open>addDays\<close>, \<open>addWeeks\<close>, \<open>startOfWeek\<close> and \<open>endOfWeek\<close> (weeks start on Sunday).\<close>

fun addDays :: "Date \<Rightarrow> int \<Rightarrow> Date" where
  "addDays (Date t) n = Date (t + n * msPerDay)"
| "addDays Invalid_Date n = Invalid_Date"

definition addWeeks :: "Date \<Rightarrow> int \<Rightarrow> Date" where
  "addWeeks d n = addDays d (n * 7)"

fun startOfWeek :: "Date \<Rightarrow> Date" where
  "startOfWeek (Date t) = Date ((t div msPerDay - (t div msPerDay + 4) mod 7) * msPerDay)"
| "startOfWeek Invalid_Date = Invalid_Date"

fun endOfWeek :: "Date \<Rightarrow> Date" where
  "endOfWeek (Date t) =
     Date ((t div msPerDay - (t div msPerDay + 4) mod 7 + 7) * msPerDay - 1)"
| "endOfWeek Invalid_Date = Invalid_Date"

subsection \<open>Strings\<close>

definition isSpace :: "char \<Rightarrow> bool" where
  "isSpace c = (c \<in> set [CHR '' '', CHR 0x09, CHR 0x0A, CHR 0x0B, CHR 0x0C, CHR 0x0D])"

definition isDigit :: "char \<Rightarrow> bool" where
  "isDigit c = (c \<in> set ''0123456789'')"

definition isWordChar :: "char \<Rightarrow> bool" where
  "isWordChar c = (c \<in> set (''abcdefghijklmnopqrstuvwxyz'' @ ''ABCDEFGHIJKLMNOPQRSTUVWXYZ''
                               @ ''0123456789'' @ ''_''))"

definition isLineTerminator :: "char \<Rightarrow> bool" where
  "isLineTerminator c = (c \<in> set [CHR 0x0A, CHR 0x0D])"

definition toLowerChar :: "char \<Rightarrow> char" where
  "toLowerChar c =
     (case map_of (zip ''ABCDEFGHIJKLMNOPQRSTUVWXYZ'' ''abcdefghijklmnopqrstuvwxyz'') c of
        Some l \<Rightarrow> l | None \<Rightarrow> c)"

definition toUpperChar :: "char \<Rightarrow> char" where
  "toUpperChar c =
     (case map_of (zip ''abcdefghijklmnopqrstuvwxyz'' ''ABCDEFGHIJKLMNOPQRSTUVWXYZ'') c of
        Some u \<Rightarrow> u | None \<Rightarrow> c)"

definition toLowerCase :: "string \<Rightarrow> string" where
  "toLowerCase s = map toLowerChar s"

definition toUpperCase :: "string \<Rightarrow> string" where
  "toUpperCase s = map toUpperChar s"

definition trim :: "string \<Rightarrow> string" where
  "trim s = rev (dropWhile isSpace (rev (dropWhile isSpace s)))"

fun startsWith :: "string \<Rightarrow> string \<Rightarrow> bool" where
  "startsWith s [] = True"
| "startsWith [] (c # sub) = False"
| "startsWith (x # s) (c # sub) = (x = c \<and> startsWith s sub)"

text \<open>\<open>s.includes(sub)\<close>: \<open>sub\<close> occurs in \<open>s\<close> as a substring.\<close>

primrec str_includes :: "string \<Rightarrow> string \<Rightarrow> bool" where
  "str_includes [] sub = (sub = [])"
| "str_includes (x # s) sub = (startsWith (x # s) sub \<or> str_includes s sub)"

text \<open>\<open>xs.findIndex(p)\<close>, with \<open>None\<close> for \<open>-1\<close>.\<close>

primrec findIndex :: "('a \<Rightarrow> bool) \<Rightarrow> 'a list \<Rightarrow> nat option" where
  "findIndex p [] = None"
| "findIndex p (x # xs) = (if p x then Some 0 else map_option Suc (findIndex p xs))"

definition digitValue :: "char \<Rightarrow> int" where
  "digitValue c = (case map_of (zip ''0123456789'' [0, 1, 2, 3, 4, 5, 6, 7, 8, 9]) c of
                     Some v \<Rightarrow> v | None \<Rightarrow> 0)"

text \<open>\<open>parseInt\<close> on a text of decimal digits, the only texts the parsers hand to it.\<close>

definition parseInt :: "string \<Rightarrow> int" where
  "parseInt s = foldl (\<lambda>n c. 10 * n + digitValue c) 0 s"

text \<open>A natural number in a template literal: its decimal digits.\<close>

fun numberToString :: "nat \<Rightarrow> string" where
  "numberToString n =
     (if n < 10 then [''0123456789'' ! n]
      else numberToString (n div 10) @ [''0123456789'' ! (n mod 10)])"

subsection \<open>Regular expressions\<close>

text \<open>
  The fragment of JavaScript regular expressions the store uses: a character class under
  a greedy quantifier \<open>{lo,hi}\<close>, and a group, capturing or not, optional or not, of
  alternatives, each a sequence. Matching is backtracking in priority order, written as
  the list of all ways to match, best first: a greedy quantifier offers its longest
  repetition first, alternatives are tried left to right, and an optional group is entered
  before it is skipped. The first element of the list is the match JavaScript finds.
\<close>

datatype cclass = Lit char | Space | Digit | Word | Dot

datatype rx = Rep cclass nat "nat option" | Group "nat option" bool "rx list list"

type_synonym captures = "nat \<Rightarrow> string option"

type_synonym mstate = "captures \<times> string"

text \<open>With the flag \<open>i\<close> a literal is compared up to case.\<close>

fun class_matches :: "bool \<Rightarrow> cclass \<Rightarrow> char \<Rightarrow> bool" where
  "class_matches ic (Lit c) x = (if ic then toUpperChar x = toUpperChar c else x = c)"
| "class_matches ic Space x = isSpace x"
| "class_matches ic Digit x = isDigit x"
| "class_matches ic Word x = isWordChar x"
| "class_matches ic Dot x = (\<not> isLineTerminator x)"

definition match_rep :: "bool \<Rightarrow> cclass \<Rightarrow> nat \<Rightarrow> nat option \<Rightarrow> mstate \<Rightarrow> mstate list" where
  "match_rep ic c lo hi st =
     (let n = length (takeWhile (class_matches ic c) (snd st));
          mx = (case hi of None \<Rightarrow> n | Some h \<Rightarrow> min n h)
      in map (\<lambda>k. (fst st, drop k (snd st))) (rev [lo ..< Suc mx]))"

fun match_seq :: "(mstate \<Rightarrow> mstate list) list \<Rightarrow> mstate \<Rightarrow> mstate list" where
  "match_seq [] st = [st]"
| "match_seq (f # fs) st = concat (map (match_seq fs) (f st))"

definition set_capture :: "nat option \<Rightarrow> string \<Rightarrow> mstate \<Rightarrow> mstate" where
  "set_capture cap s st =
     (case cap of
        None \<Rightarrow> st
      | Some n \<Rightarrow> ((fst st)(n \<mapsto> take (length s - length (snd st)) s), snd st))"

fun match_rx :: "bool \<Rightarrow> rx \<Rightarrow> mstate \<Rightarrow> mstate list" where
  "match_rx ic (Rep c lo hi) st = match_rep ic c lo hi st"
| "match_rx ic (Group cap opt alts) st =
     concat (map (\<lambda>alt. map (set_capture cap (snd st))
                          (match_seq (map (\<lambda>r st'. match_rx ic r st') alt) st)) alts)
     @ (if opt then [st] else [])"

text \<open>\<open>text.match(re)\<close> for a regular expression without the flag \<open>g\<close>: the leftmost match.\<close>

primrec regex_match :: "bool \<Rightarrow> rx list \<Rightarrow> string \<Rightarrow> captures option" where
  "regex_match ic re [] =
     (case match_seq (map (match_rx ic) re) (Map.empty, []) of
        [] \<Rightarrow> None | st # _ \<Rightarrow> Some (fst st))"
| "regex_match ic re (x # s) =
     (case match_seq (map (match_rx ic) re) (Map.empty, x # s) of
        [] \<Rightarrow> regex_match ic re s | st # _ \<Rightarrow> Some (fst st))"

text \<open>
  The text of a group of a match; a group that takes part in every match is always defined.
\<close>

definition grp :: "captures \<Rightarrow> nat \<Rightarrow> string" where
  "grp m k = (case m k of None \<Rightarrow> [] | Some s \<Rightarrow> s)"

abbreviation chr :: "char \<Rightarrow> rx" where
  "chr c \<equiv> Rep (Lit c) 1 (Some 1)"

abbreviation lits :: "string \<Rightarrow> rx list" where
  "lits s \<equiv> map chr s"

abbreviation plus :: "cclass \<Rightarrow> rx" where
  "plus c \<equiv> Rep c 1 None"

abbreviation star :: "cclass \<Rightarrow> rx" where
  "star c \<equiv> Rep c 0 None"

abbreviation maybe :: "cclass \<Rightarrow> rx" where
  "maybe c \<equiv> Rep c 0 (Some 1)"

abbreviation capture :: "nat \<Rightarrow> rx list \<Rightarrow> rx" where
  "capture n body \<equiv> Group (Some n) False [body]"

abbreviation optional :: "rx list \<Rightarrow> rx" where
  "optional body \<equiv> Group None True [body]"

abbreviation alternatives :: "rx list list \<Rightarrow> rx" where
  "alternatives alts \<equiv> Group None False alts"

abbreviation apostrophe :: char where
  "apostrophe \<equiv> CHR 0x27"

abbreviation dquote :: char where
  "dquote \<equiv> CHR 0x22"

subsection \<open>Command parser (parseCommand)\<close>

record parsed_command =
  action :: string
  target :: "string option"
  params :: "(string \<times> string) list"

text \<open>\<open>/move\s+(\d+)(?:'s?)?\s+(\w+)\s+(?:to\s+)?(.+)/i\<close>\<close>

definition moveRe :: "rx list" where
  "moveRe = lits ''move'' @
     [plus Space, capture 1 [plus Digit], optional [chr apostrophe, maybe (Lit CHR ''s'')],
      plus Space, capture 2 [plus Word], plus Space, optional (lits ''to'' @ [plus Space]),
      capture 3 [plus Dot]]"

text \<open>\<open>/what\s*(?:if|happens?\s*if)\s+(\d+)(?:'s?)?\s+(\w+)\s+(?:slips?\s+)?(?:to\s+)?(.+)/i\<close>\<close>

definition whatIfRe :: "rx list" where
  "whatIfRe = lits ''what'' @
     [star Space,
      alternatives [lits ''if'',
                    lits ''happen'' @ [maybe (Lit CHR ''s''), star Space] @ lits ''if''],
      plus Space, capture 1 [plus Digit], optional [chr apostrophe, maybe (Lit CHR ''s'')],
      plus Space, capture 2 [plus Word], plus Space,
      optional (lits ''slip'' @ [maybe (Lit CHR ''s''), plus Space]),
      optional (lits ''to'' @ [plus Space]),
      capture 3 [plus Dot]]"

text \<open>\<open>/show\s+(?:me\s+)?(.+)/i\<close>\<close>

definition showRe :: "rx list" where
  "showRe = lits ''show'' @
     [plus Space, optional (lits ''me'' @ [plus Space]), capture 1 [plus Dot]]"

text \<open>\<open>/what(?:'s|s|\s+is)\s+blocking\s+(\d+)/i\<close>\<close>

definition blockingRe :: "rx list" where
  "blockingRe = lits ''what'' @
     [alternatives [[chr apostrophe, chr CHR ''s''], [chr CHR ''s''], plus Space # lits ''is''],
      plus Space] @ lits ''blocking'' @ [plus Space, capture 1 [plus Digit]]"

text \<open>\<open>/what(?:'s|s|\s+is)\s+late/i\<close>\<close>

definition lateRe :: "rx list" where
  "lateRe = lits ''what'' @
     [alternatives [[chr apostrophe, chr CHR ''s''], [chr CHR ''s''], plus Space # lits ''is''],
      plus Space] @ lits ''late''"

text \<open>\<open>/list\s+(\w+)\s+(?:shots?\s+)?(?:for\s+)?(\d+)?/i\<close>\<close>

definition listRe :: "rx list" where
  "listRe = lits ''list'' @
     [plus Space, capture 1 [plus Word], plus Space,
      optional (lits ''shot'' @ [maybe (Lit CHR ''s''), plus Space]),
      optional (lits ''for'' @ [plus Space]),
      Group (Some 2) True [[plus Digit]]]"

text \<open>The parser ignores its second argument, the state.\<close>

definition parseCommand :: "string \<Rightarrow> parsed_command" where
  "parseCommand input =
     (let normalized = trim (toLowerCase input) in
      case regex_match True moveRe normalized of
        Some moveMatch \<Rightarrow>
          \<lparr>action = ''move'', target = moveMatch 1,
           params = [(''milestoneCode'', toUpperCase (grp moveMatch 2)),
                     (''newDate'', grp moveMatch 3)]\<rparr>
      | None \<Rightarrow>
     (case regex_match True whatIfRe normalized of
        Some whatIfMatch \<Rightarrow>
          \<lparr>action = ''what_if'', target = whatIfMatch 1,
           params = [(''milestoneCode'', toUpperCase (grp whatIfMatch 2)),
                     (''newDate'', grp whatIfMatch 3)]\<rparr>
      | None \<Rightarrow>
     (case regex_match True showRe normalized of
        Some showMatch \<Rightarrow> \<lparr>action = ''show'', target = showMatch 1, params = []\<rparr>
      | None \<Rightarrow>
     (case regex_match True blockingRe normalized of
        Some blockingMatch \<Rightarrow> \<lparr>action = ''blocking'', target = blockingMatch 1, params = []\<rparr>
      | None \<Rightarrow>
     (case regex_match True lateRe normalized of
        Some lateMatch \<Rightarrow> \<lparr>action = ''late'', target = None, params = []\<rparr>
      | None \<Rightarrow>
     (case regex_match True listRe normalized of
        Some listMatch \<Rightarrow>
          \<lparr>action = ''list'', target = listMatch 2, params = [(''type'', grp listMatch 1)]\<rparr>
      | None \<Rightarrow>
          \<lparr>action = ''unknown'', target = None, params = [(''raw'', input)]\<rparr>))))))"

subsection \<open>The data model (src/types)\<close>

record ProjectSettings =
  defaultMilestoneTypes :: "string list option"
  workWeekDays :: "int list option"
  timezone :: "string option"

record Project =
  p_id :: string
  p_organizationId :: string
  p_name :: string
  p_code :: "string option"
  p_seasonNumber :: "int option"
  p_status :: string
  p_settings :: ProjectSettings
  p_createdAt :: Date
  p_updatedAt :: Date

record Episode =
  ep_id :: string
  ep_projectId :: string
  ep_number :: string
  ep_title :: "string option"
  ep_director :: "string option"
  ep_editor :: "string option"
  ep_sortOrder :: int
  ep_status :: string
  ep_createdAt :: Date
  ep_updatedAt :: Date

record MilestoneType =
  mt_id :: string
  mt_projectId :: string
  mt_code :: string
  mt_name :: string
  mt_sortOrder :: int
  mt_defaultDurationDays :: "int option"
  mt_isHardDeadline :: bool
  mt_color :: "string option"
  mt_icon :: "string option"
  requiresCompletionOf :: "string list"
  mt_createdAt :: Date

record Milestone =
  m_id :: string
  episodeId :: string
  milestoneTypeId :: string
  scheduledDate :: "Date option"
  scheduledTime :: "string option"
  completedDate :: "Date option"
  completedAt :: "Date option"
  status :: string
  m_notes :: "string option"
  createdAt :: Date
  updatedAt :: Date

record WorkItem =
  w_id :: string
  w_episodeId :: string
  w_workDescription :: string
  w_status :: string

record CrewMember =
  cm_id :: string
  cm_projectId :: string
  cm_name :: string

record Session =
  se_id :: string
  se_projectId :: string
  se_name :: string
  se_scheduledDate :: Date

record CalendarEvent =
  ce_id :: string
  ce_projectId :: string
  ce_name :: string
  ce_eventType :: string
  ce_startDate :: Date
  ce_endDate :: "Date option"
  ce_affectsAll :: bool
  ce_createdAt :: Date

datatype ViewMode = gantt | grid | calendar | list_view

record DateRange =
  range_start :: Date
  range_end :: Date

datatype ConflictType = dependency | resource | deadline

datatype Severity = error | warning | info

record ScheduleConflict =
  c_type :: ConflictType
  severity :: Severity
  c_message :: string
  affectedMilestones :: "string list"
  suggestedResolution :: "string option"

record CommandResult =
  success :: bool
  message :: string
  conflicts :: "ScheduleConflict list option"

record PostProState =
  currentProject :: "Project option"
  viewMode :: ViewMode
  dateRange :: DateRange
  selectedEpisodeId :: "string option"
  selectedMilestoneId :: "string option"
  episodes :: "Episode list"
  milestones :: "Milestone list"
  milestoneTypes :: "MilestoneType list"
  workItems :: "WorkItem list"
  calendarEvents :: "CalendarEvent list"
  crewMembers :: "CrewMember list"
  sessions :: "Session list"
  isLoading :: bool
  isSaving :: bool
  error_msg :: "string option"
  showOnboarding :: bool

text \<open>
  The records carry the fields the store reads or writes. The joined fields of a milestone
  (\<open>milestoneType\<close>, \<open>episode\<close>) and the optional fields of a project and an episode that
  the store never sets are left out; of the work items, crew members and sessions, which
  the store only ever holds as empty lists, the identifying fields are kept. A status is
  the string it is at run time.
\<close>

subsection \<open>The platform\<close>

text \<open>
  \<open>now\<close> is \<open>new Date()\<close>; \<open>toLocaleDateString\<close> is the method of that name;
  \<open>parseISO\<close> is the date-fns function, \<open>None\<close> when it throws, \<open>Some Invalid_Date\<close>
  when it cannot read the text; \<open>newDateOfString\<close> is \<open>new Date(text)\<close>.
\<close>

record platform =
  now :: Date
  toLocaleDateString :: "Date \<Rightarrow> string"
  parseISO :: "string \<Rightarrow> Date option"
  newDateOfString :: "string \<Rightarrow> Date"

subsection \<open>Date parser (parseDateReference)\<close>

definition daysOfWeek :: "string list" where
  "daysOfWeek = [''sunday'', ''monday'', ''tuesday'', ''wednesday'', ''thursday'', ''friday'',
                 ''saturday'']"

text \<open>\<open>/(\d{1,2})\/(\d{1,2})(?:\/(\d{2,4}))?/\<close>\<close>

definition slashRe :: "rx list" where
  "slashRe = [capture 1 [Rep Digit 1 (Some 2)], chr CHR ''/'', capture 2 [Rep Digit 1 (Some 2)],
              optional [chr CHR ''/'', capture 3 [Rep Digit 2 (Some 4)]]]"

text \<open>
  The reference date is an argument here; the store always leaves it out, which makes it
  \<open>new Date()\<close>. With an invalid reference date \<open>getDay\<close> is NaN, the two comparisons and
  additions keep it NaN, and \<open>addDays\<close> returns an invalid date.
\<close>

definition parseDateReference :: "platform \<Rightarrow> string \<Rightarrow> Date \<Rightarrow> Date option" where
  "parseDateReference P dateStr referenceDate =
     (let normalized = trim (toLowerCase dateStr) in
      if normalized = ''today'' then Some referenceDate
      else if normalized = ''tomorrow'' then Some (addDays referenceDate 1)
      else if normalized = ''yesterday'' then Some (addDays referenceDate (- 1))
      else
        (case findIndex (\<lambda>d. str_includes normalized d) daysOfWeek of
           Some dayIndex \<Rightarrow>
             (case getDay referenceDate of
                None \<Rightarrow> Some Invalid_Date
              | Some currentDay \<Rightarrow>
                  (let daysToAdd = int dayIndex - currentDay;
                       daysToAdd = (if daysToAdd \<le> 0 then daysToAdd + 7 else daysToAdd);
                       daysToAdd = (if str_includes normalized ''next'' then daysToAdd + 7
                                    else daysToAdd)
                   in Some (addDays referenceDate daysToAdd)))
         | None \<Rightarrow>
             if str_includes normalized ''next week'' then Some (addWeeks referenceDate 1)
             else
               (case regex_match False slashRe normalized of
                  Some slashMatch \<Rightarrow>
                    (let month = parseInt (grp slashMatch 1) - 1;
                         day = parseInt (grp slashMatch 2);
                         year = (case slashMatch 3 of
                                   Some y \<Rightarrow> Some (if length y = 2 then 2000 + parseInt y
                                                    else parseInt y)
                                 | None \<Rightarrow> getFullYear referenceDate)
                     in Some (new_Date year month day))
                | None \<Rightarrow>
                    (case parseISO P normalized of
                       None \<Rightarrow> None
                     | Some parsed \<Rightarrow> if parsed \<noteq> Invalid_Date then Some parsed else None))))"

subsection \<open>Dependency checker (checkDependencies)\<close>

text \<open>The body of the first loop: one prerequisite code, the conflicts so far.\<close>

definition prereq_step ::
  "platform \<Rightarrow> Milestone \<Rightarrow> Date \<Rightarrow> PostProState \<Rightarrow> MilestoneType \<Rightarrow> string
     \<Rightarrow> ScheduleConflict list \<Rightarrow> ScheduleConflict list" where
  "prereq_step P milestone newDate state milestoneType prereqCode cs =
     (case find (\<lambda>mt. mt_code mt = prereqCode) (milestoneTypes state) of
        None \<Rightarrow> cs
      | Some prereqType \<Rightarrow>
          (case find (\<lambda>m. episodeId m = episodeId milestone \<and> milestoneTypeId m = mt_id prereqType)
                  (milestones state) of
             None \<Rightarrow> cs
           | Some prereqMilestone \<Rightarrow>
               (case scheduledDate prereqMilestone of
                  None \<Rightarrow> cs
                | Some sd \<Rightarrow>
                    if isAfter sd newDate then
                      cs @
                      [\<lparr>c_type = dependency, severity = error,
                        c_message = mt_code milestoneType @ '' cannot be before '' @ prereqCode
                          @ '' (scheduled '' @ toLocaleDateString P sd @ '')'',
                        affectedMilestones = [m_id milestone, m_id prereqMilestone],
                        suggestedResolution = Some (''Move '' @ prereqCode @ '' earlier or schedule ''
                          @ mt_code milestoneType @ '' after '' @ toLocaleDateString P sd)\<rparr>]
                    else cs)))"

text \<open>The body of the second loop: one dependent type, the conflicts so far.\<close>

definition dependent_step ::
  "platform \<Rightarrow> Milestone \<Rightarrow> Date \<Rightarrow> PostProState \<Rightarrow> MilestoneType
     \<Rightarrow> ScheduleConflict list \<Rightarrow> ScheduleConflict list" where
  "dependent_step P milestone newDate state depType cs =
     (case find (\<lambda>m. episodeId m = episodeId milestone \<and> milestoneTypeId m = mt_id depType)
             (milestones state) of
        None \<Rightarrow> cs
      | Some depMilestone \<Rightarrow>
          (case scheduledDate depMilestone of
             None \<Rightarrow> cs
           | Some sd \<Rightarrow>
               if isBefore sd newDate then
                 cs @
                 [\<lparr>c_type = dependency, severity = warning,
                   c_message = ''This will require moving '' @ mt_code depType
                     @ '' (currently '' @ toLocaleDateString P sd @ '')'',
                   affectedMilestones = [m_id milestone, m_id depMilestone],
                   suggestedResolution = Some (mt_code depType @ '' will cascade to after ''
                     @ toLocaleDateString P newDate)\<rparr>]
               else cs))"

definition checkDependencies ::
  "platform \<Rightarrow> Milestone \<Rightarrow> Date \<Rightarrow> PostProState \<Rightarrow> ScheduleConflict list" where
  "checkDependencies P milestone newDate state =
     (case find (\<lambda>mt. mt_id mt = milestoneTypeId milestone) (milestoneTypes state) of
        None \<Rightarrow> []
      | Some milestoneType \<Rightarrow>
          (let prerequisites = requiresCompletionOf milestoneType;
               cs = fold (prereq_step P milestone newDate state milestoneType) prerequisites [];
               dependents = filter (\<lambda>mt. mt_code milestoneType \<in> set (requiresCompletionOf mt))
                              (milestoneTypes state)
           in fold (dependent_step P milestone newDate state) dependents cs))"

subsection \<open>The backend (src/lib/api)\<close>

text \<open>
  What the backend sends, as the store reads it: snake-case fields, absent ones \<open>None\<close>. A
  request either resolves with a payload or rejects; the client rejects with an
  \<open>ApiError\<close>, whose message the store reports.
\<close>

record api_episode =
  ae_id :: string
  ae_project_id :: string
  ae_number :: string
  ae_title :: "string option"
  ae_director :: "string option"
  ae_editor :: "string option"
  ae_sort_order :: int
  ae_status :: string
  ae_created_at :: string
  ae_updated_at :: string

record api_milestone =
  am_id :: string
  am_episode_id :: string
  am_milestone_type_id :: string
  am_scheduled_date :: "string option"
  am_status :: string
  am_notes :: "string option"
  am_created_at :: string
  am_updated_at :: string

record api_milestone_type =
  at_id :: string
  at_project_id :: string
  at_code :: string
  at_name :: string
  at_sort_order :: int
  at_is_hard_deadline :: bool
  at_requires_completion_of :: "string list option"
  at_created_at :: string

record api_calendar_event =
  ac_id :: string
  ac_project_id :: string
  ac_name :: string
  ac_event_type :: string
  ac_start_date :: string
  ac_end_date :: "string option"
  ac_affects_all :: bool
  ac_created_at :: string

record api_project =
  ap_id :: string
  ap_organization_id :: string
  ap_name :: string
  ap_code :: "string option"
  ap_season_number :: "int option"
  ap_status :: string
  ap_settings :: "ProjectSettings option"
  ap_created_at :: string
  ap_updated_at :: string
  ap_episodes :: "api_episode list option"
  ap_milestones :: "api_milestone list option"
  ap_milestone_types :: "api_milestone_type list option"
  ap_calendar_events :: "api_calendar_event list option"

record command_response =
  cr_intent :: string
  cr_response :: string
  cr_success :: bool
  cr_changes :: "string list option"
  cr_clarificationNeeded :: "string option"

datatype 'a answer = Rejected "string option" | Resolved 'a

text \<open>
  \<open>get_project\<close> is \<open>api.projects.get(projectId)\<close>; \<open>send_command\<close> is
  \<open>api.command(projectId, input, selectedEpisodeId)\<close>.
\<close>

record backend =
  get_project :: "string \<Rightarrow> api_project answer"
  send_command :: "string \<Rightarrow> string \<Rightarrow> string option \<Rightarrow> command_response answer"

definition orEmpty :: "'a list option \<Rightarrow> 'a list" where
  "orEmpty xs = (case xs of None \<Rightarrow> [] | Some ys \<Rightarrow> ys)"

subsection \<open>Demo data (loadDemoData)\<close>

definition demoType ::
  "platform \<Rightarrow> string \<Rightarrow> string \<Rightarrow> string \<Rightarrow> int \<Rightarrow> bool \<Rightarrow> string list \<Rightarrow> MilestoneType" where
  "demoType P i c n k h rs =
     \<lparr>mt_id = i, mt_projectId = ''demo-project'', mt_code = c, mt_name = n, mt_sortOrder = k,
      mt_defaultDurationDays = None, mt_isHardDeadline = h, mt_color = None, mt_icon = None,
      requiresCompletionOf = rs, mt_createdAt = now P\<rparr>"

definition demoMilestoneTypes :: "platform \<Rightarrow> MilestoneType list" where
  "demoMilestoneTypes P =
     [demoType P ''mt-ec'' ''EC'' (''Editor'' @ [apostrophe] @ ''s Cut'') 1 False [],
      demoType P ''mt-dc'' ''DC'' (''Director'' @ [apostrophe] @ ''s Cut'') 2 False [''EC''],
      demoType P ''mt-nc1'' ''NC1'' ''Network Cut 1'' 3 False [''DC''],
      demoType P ''mt-nc2'' ''NC2'' ''Network Cut 2'' 4 False [''NC1''],
      demoType P ''mt-fpl'' ''FPL'' ''Final Picture Lock'' 5 True [''NC2''],
      demoType P ''mt-ms'' ''M/S'' ''Music/Sound Spotting'' 6 False [''FPL''],
      demoType P ''mt-cc'' ''CC'' ''Color Correction'' 7 False [''FPL''],
      demoType P ''mt-mix'' ''MIX'' ''Final Mix'' 8 False [''M/S'', ''CC''],
      demoType P ''mt-qc'' ''QC'' ''Quality Control'' 9 False [''MIX''],
      demoType P ''mt-d'' ''D'' ''Delivery'' 10 True [''QC'']]"

definition demoEpisodes :: "platform \<Rightarrow> Episode list" where
  "demoEpisodes P =
     map (\<lambda>i. \<lparr>ep_id = ''ep-'' @ numberToString (i + 1), ep_projectId = ''demo-project'',
                ep_number = numberToString (301 + i), ep_title = Some [],
                ep_director = Some ''Garcia'',
                ep_editor = Some (if i mod 2 = 0 then ''Marrinson'' else ''Maddox''),
                ep_sortOrder = int i, ep_status = ''active'', ep_createdAt = now P,
                ep_updatedAt = now P\<rparr>) [0 ..< 10]"

definition demoMilestones :: "platform \<Rightarrow> Milestone list" where
  "demoMilestones P =
     concat (map (\<lambda>(epIndex, ep).
        map (\<lambda>(mtIndex, mt).
           \<lparr>m_id = ''ms-'' @ ep_id ep @ ''-'' @ mt_id mt, episodeId = ep_id ep,
            milestoneTypeId = mt_id mt,
            scheduledDate = Some (addDays (now P) (int epIndex * 3 + int mtIndex * 7)),
            scheduledTime = None, completedDate = None, completedAt = None,
            status = ''scheduled'', m_notes = None, createdAt = now P, updatedAt = now P\<rparr>)
          (enumerate 0 (demoMilestoneTypes P)))
       (enumerate 0 (demoEpisodes P)))"

definition demoCalendarEvents :: "platform \<Rightarrow> CalendarEvent list" where
  "demoCalendarEvents P =
     [\<lparr>ce_id = ''ce-1'', ce_projectId = ''demo-project'', ce_name = ''Thanksgiving'',
       ce_eventType = ''holiday'', ce_startDate = addDays (now P) 21,
       ce_endDate = Some (addDays (now P) 24), ce_affectsAll = True, ce_createdAt = now P\<rparr>,
      \<lparr>ce_id = ''ce-2'', ce_projectId = ''demo-project'', ce_name = ''Winter Break'',
       ce_eventType = ''hold'', ce_startDate = addDays (now P) 45,
       ce_endDate = Some (addDays (now P) 52), ce_affectsAll = True, ce_createdAt = now P\<rparr>]"

definition loadDemoData :: "platform \<Rightarrow> PostProState \<Rightarrow> PostProState" where
  "loadDemoData P state =
     state\<lparr>currentProject := Some
              \<lparr>p_id = ''demo-project'', p_organizationId = ''demo-org'', p_name = ''Demo Show'',
               p_code = Some ''DEMO'', p_seasonNumber = Some 3, p_status = ''active'',
               p_settings = \<lparr>defaultMilestoneTypes = None, workWeekDays = None,
                              timezone = None\<rparr>,
               p_createdAt = now P, p_updatedAt = now P\<rparr>,
           episodes := demoEpisodes P,
           milestones := demoMilestones P,
           milestoneTypes := demoMilestoneTypes P,
           calendarEvents := demoCalendarEvents P,
           workItems := [], crewMembers := [], sessions := [], isLoading := False\<rparr>"

subsection \<open>Loading a project (fetchProjectData)\<close>

text \<open>The catalog as the store takes it from the payload: every field copied, an absent
  prerequisite list read as the empty list.\<close>

definition milestoneTypeOfApi :: "platform \<Rightarrow> api_milestone_type \<Rightarrow> MilestoneType" where
  "milestoneTypeOfApi P mt =
     \<lparr>mt_id = at_id mt, mt_projectId = at_project_id mt, mt_code = at_code mt,
      mt_name = at_name mt, mt_sortOrder = at_sort_order mt, mt_defaultDurationDays = None,
      mt_isHardDeadline = at_is_hard_deadline mt, mt_color = None, mt_icon = None,
      requiresCompletionOf = orEmpty (at_requires_completion_of mt),
      mt_createdAt = newDateOfString P (at_created_at mt)\<rparr>"

definition episodeOfApi :: "platform \<Rightarrow> api_episode \<Rightarrow> Episode" where
  "episodeOfApi P ep =
     \<lparr>ep_id = ae_id ep, ep_projectId = ae_project_id ep, ep_number = ae_number ep,
      ep_title = Some (orEmpty (ae_title ep)), ep_director = ae_director ep,
      ep_editor = ae_editor ep, ep_sortOrder = ae_sort_order ep, ep_status = ae_status ep,
      ep_createdAt = newDateOfString P (ae_created_at ep),
      ep_updatedAt = newDateOfString P (ae_updated_at ep)\<rparr>"

definition milestoneOfApi :: "platform \<Rightarrow> api_milestone \<Rightarrow> Milestone" where
  "milestoneOfApi P m =
     \<lparr>m_id = am_id m, episodeId = am_episode_id m, milestoneTypeId = am_milestone_type_id m,
      scheduledDate = (case am_scheduled_date m of
                         None \<Rightarrow> None
                       | Some d \<Rightarrow> if d \<noteq> [] then Some (newDateOfString P d) else None),
      scheduledTime = None, completedDate = None, completedAt = None, status = am_status m,
      m_notes = am_notes m, createdAt = newDateOfString P (am_created_at m),
      updatedAt = newDateOfString P (am_updated_at m)\<rparr>"

definition calendarEventOfApi :: "platform \<Rightarrow> api_calendar_event \<Rightarrow> CalendarEvent" where
  "calendarEventOfApi P ce =
     \<lparr>ce_id = ac_id ce, ce_projectId = ac_project_id ce, ce_name = ac_name ce,
      ce_eventType = ac_event_type ce, ce_startDate = newDateOfString P (ac_start_date ce),
      ce_endDate = (case ac_end_date ce of
                      None \<Rightarrow> None
                    | Some d \<Rightarrow> if d \<noteq> [] then Some (newDateOfString P d) else None),
      ce_affectsAll = ac_affects_all ce,
      ce_createdAt = newDateOfString P (ac_created_at ce)\<rparr>"

text \<open>
  A rejected request is caught and the demo data loaded in its place. The payload is taken
  to have the shape the store reads, so that the mapping itself does not throw.
\<close>

definition fetchProjectData :: "platform \<Rightarrow> backend \<Rightarrow> string \<Rightarrow> PostProState \<Rightarrow> PostProState" where
  "fetchProjectData P B projectId state =
     (case get_project B projectId of
        Rejected e \<Rightarrow> loadDemoData P state
      | Resolved project \<Rightarrow>
          state\<lparr>currentProject := Some
                   \<lparr>p_id = ap_id project, p_organizationId = ap_organization_id project,
                    p_name = ap_name project, p_code = ap_code project,
                    p_seasonNumber = ap_season_number project, p_status = ap_status project,
                    p_settings = (case ap_settings project of
                                    None \<Rightarrow> \<lparr>defaultMilestoneTypes = None, workWeekDays = None,
                                              timezone = None\<rparr>
                                  | Some st \<Rightarrow> st),
                    p_createdAt = newDateOfString P (ap_created_at project),
                    p_updatedAt = newDateOfString P (ap_updated_at project)\<rparr>,
                episodes := map (episodeOfApi P) (orEmpty (ap_episodes project)),
                milestones := map (milestoneOfApi P) (orEmpty (ap_milestones project)),
                milestoneTypes := map (milestoneTypeOfApi P) (orEmpty (ap_milestone_types project)),
                calendarEvents := map (calendarEventOfApi P) (orEmpty (ap_calendar_events project)),
                workItems := [], crewMembers := [], sessions := [], isLoading := False\<rparr>)"

subsection \<open>The store action moveMilestone\<close>

text \<open>
  The action reads the state, and either returns a failure and leaves the state alone, or
  replaces the milestone list. Nothing is awaited in between, so the state that \<open>set\<close>
  updates is the state that \<open>get\<close> returned.
\<close>

definition moveMilestone ::
  "platform \<Rightarrow> string \<Rightarrow> Date \<Rightarrow> PostProState \<Rightarrow> CommandResult \<times> PostProState" where
  "moveMilestone P i newDate state =
     (case find (\<lambda>m. m_id m = i) (milestones state) of
        None \<Rightarrow> (\<lparr>success = False, message = ''Milestone not found'', conflicts = None\<rparr>, state)
      | Some milestone \<Rightarrow>
          (let cs = checkDependencies P milestone newDate state;
               hasErrors = list_ex (\<lambda>c. severity c = error) cs
           in if hasErrors then
                (\<lparr>success = False,
                  message = ''Cannot move milestone due to dependency conflicts'',
                  conflicts = Some cs\<rparr>, state)
              else
                (let state' = state\<lparr>milestones :=
                       map (\<lambda>m. if m_id m = i
                                 then m\<lparr>scheduledDate := Some newDate, updatedAt := now P\<rparr>
                                 else m) (milestones state)\<rparr>;
                     milestoneType = find (\<lambda>mt. mt_id mt = milestoneTypeId milestone)
                                       (milestoneTypes state);
                     episode = find (\<lambda>e. ep_id e = episodeId milestone) (episodes state)
                 in (\<lparr>success = True,
                      message = ''Moved ''
                        @ (case episode of None \<Rightarrow> ''undefined'' | Some e \<Rightarrow> ep_number e) @ '' ''
                        @ (case milestoneType of None \<Rightarrow> ''undefined'' | Some mt \<Rightarrow> mt_code mt)
                        @ '' to '' @ toLocaleDateString P newDate,
                      conflicts = (if cs \<noteq> [] then Some cs else None)\<rparr>, state'))))"

subsection \<open>The store action processCommand\<close>

definition join :: "string \<Rightarrow> string list \<Rightarrow> string" where
  "join sep xs = (case xs of [] \<Rightarrow> [] | y # ys \<Rightarrow> y @ concat (map (\<lambda>z. sep @ z) ys))"

text \<open>A parameter of the parsed command; \<open>undefined\<close> when the parser did not set it.\<close>

definition param :: "parsed_command \<Rightarrow> string \<Rightarrow> string" where
  "param parsed k = (case map_of (params parsed) k of None \<Rightarrow> ''undefined'' | Some v \<Rightarrow> v)"

definition targetOrEmpty :: "parsed_command \<Rightarrow> string" where
  "targetOrEmpty parsed = (case target parsed of None \<Rightarrow> [] | Some t \<Rightarrow> t)"

definition targetText :: "parsed_command \<Rightarrow> string" where
  "targetText parsed = (case target parsed of None \<Rightarrow> ''null'' | Some t \<Rightarrow> t)"

definition failure :: "string \<Rightarrow> CommandResult" where
  "failure msg = \<lparr>success = False, message = msg, conflicts = None\<rparr>"

definition succeeded :: "string \<Rightarrow> CommandResult" where
  "succeeded msg = \<lparr>success = True, message = msg, conflicts = None\<rparr>"

text \<open>
  The lookups that the cases \<open>move\<close> and \<open>what_if\<close> share word for word: the episode
  whose number contains the reference, the type with the code, the milestone of the two,
  the date. Each failure is the result the store returns.
\<close>

definition resolveTarget ::
  "platform \<Rightarrow> parsed_command \<Rightarrow> PostProState
     \<Rightarrow> CommandResult + (Episode \<times> MilestoneType \<times> Milestone \<times> Date)" where
  "resolveTarget P parsed state =
     (case find (\<lambda>e. str_includes (ep_number e) (targetOrEmpty parsed)) (episodes state) of
        None \<Rightarrow> Inl (failure (''Episode '' @ targetText parsed @ '' not found''))
      | Some episode \<Rightarrow>
     (case find (\<lambda>mt. mt_code mt = param parsed ''milestoneCode'') (milestoneTypes state) of
        None \<Rightarrow> Inl (failure (''Unknown milestone type: '' @ param parsed ''milestoneCode''))
      | Some milestoneType \<Rightarrow>
     (case find (\<lambda>m. episodeId m = ep_id episode \<and> milestoneTypeId m = mt_id milestoneType)
             (milestones state) of
        None \<Rightarrow> Inl (failure (ep_number episode @ '' doesn'' @ [apostrophe] @ ''t have a ''
                               @ mt_code milestoneType @ '' scheduled''))
      | Some milestone \<Rightarrow>
     (case parseDateReference P (param parsed ''newDate'') (now P) of
        None \<Rightarrow> Inl (failure (''Couldn'' @ [apostrophe] @ ''t understand date: ''
                               @ [dquote] @ param parsed ''newDate'' @ [dquote]))
      | Some newDate \<Rightarrow> Inr (episode, milestoneType, milestone, newDate)))))"

definition processMove ::
  "platform \<Rightarrow> parsed_command \<Rightarrow> PostProState \<Rightarrow> CommandResult \<times> PostProState" where
  "processMove P parsed state =
     (case resolveTarget P parsed state of
        Inl r \<Rightarrow> (r, state)
      | Inr (episode, milestoneType, milestone, newDate) \<Rightarrow>
          moveMilestone P (m_id milestone) newDate state)"

definition processWhatIf ::
  "platform \<Rightarrow> parsed_command \<Rightarrow> PostProState \<Rightarrow> CommandResult \<times> PostProState" where
  "processWhatIf P parsed state =
     (case resolveTarget P parsed state of
        Inl r \<Rightarrow> (r, state)
      | Inr (episode, milestoneType, milestone, newDate) \<Rightarrow>
          (let cs = checkDependencies P milestone newDate state
           in if length cs = 0 then
                (succeeded (''Moving '' @ ep_number episode @ '' '' @ mt_code milestoneType
                            @ '' to '' @ toLocaleDateString P newDate
                            @ '' would have no conflicts.''), state)
              else
                (\<lparr>success = True,
                  message = ''Moving '' @ ep_number episode @ '' '' @ mt_code milestoneType
                            @ '' to '' @ toLocaleDateString P newDate @ '' would cause ''
                            @ numberToString (length cs) @ '' issue(s):'',
                  conflicts = Some cs\<rparr>, state)))"

definition processLate :: "platform \<Rightarrow> PostProState \<Rightarrow> CommandResult \<times> PostProState" where
  "processLate P state =
     (let today = now P;
          lateMilestones = filter (\<lambda>m. (case scheduledDate m of
                                           None \<Rightarrow> False
                                         | Some d \<Rightarrow> isBefore d today \<and> status m \<noteq> ''completed''))
                             (milestones state)
      in if length lateMilestones = 0 then (succeeded ''Nothing is currently late!'', state)
         else
           (let lateItems = map (\<lambda>m.
                  (case find (\<lambda>e. ep_id e = episodeId m) (episodes state) of
                     None \<Rightarrow> ''undefined'' | Some ep \<Rightarrow> ep_number ep) @ '' '' @
                  (case find (\<lambda>t. mt_id t = milestoneTypeId m) (milestoneTypes state) of
                     None \<Rightarrow> ''undefined'' | Some mt \<Rightarrow> mt_code mt)) lateMilestones
            in (succeeded (numberToString (length lateMilestones)
                           @ '' item(s) are past their scheduled date: ''
                           @ join '', '' lateItems), state)))"

definition processBlocking ::
  "parsed_command \<Rightarrow> PostProState \<Rightarrow> CommandResult \<times> PostProState" where
  "processBlocking parsed state =
     (case find (\<lambda>e. str_includes (ep_number e) (targetOrEmpty parsed)) (episodes state) of
        None \<Rightarrow> (failure (''Episode '' @ targetText parsed @ '' not found''), state)
      | Some episode \<Rightarrow>
          (let incomplete = filter (\<lambda>m. episodeId m = ep_id episode \<and> status m \<noteq> ''completed'')
                              (milestones state);
               pendingWork = filter (\<lambda>w. w_episodeId w = ep_id episode \<and> w_status w \<noteq> ''approved'')
                               (workItems state);
               blockers = concat (map (\<lambda>m.
                  (case find (\<lambda>t. mt_id t = milestoneTypeId m) (milestoneTypes state) of
                     None \<Rightarrow> []
                   | Some mt \<Rightarrow> [mt_code mt @ '' ('' @ status m @ '')''])) incomplete);
               blockers = (if length pendingWork > 0
                           then blockers @ [numberToString (length pendingWork)
                                            @ '' work item(s) pending'']
                           else blockers)
           in if length blockers = 0
              then (succeeded (''Nothing is blocking '' @ ep_number episode @ ''!''), state)
              else (succeeded (ep_number episode @ '' is waiting on: '' @ join '', '' blockers),
                    state)))"

text \<open>\<open>/(\d+)/\<close>\<close>

definition epRe :: "rx list" where
  "epRe = [capture 1 [plus Digit]]"

definition processShow ::
  "platform \<Rightarrow> parsed_command \<Rightarrow> PostProState \<Rightarrow> CommandResult \<times> PostProState" where
  "processShow P parsed state =
     (let tgt = toLowerCase (targetOrEmpty parsed) in
      if str_includes tgt ''this week'' then
        (succeeded ''Showing this week'',
         state\<lparr>dateRange := \<lparr>range_start = startOfWeek (now P),
                               range_end = endOfWeek (now P)\<rparr>\<rparr>)
      else if str_includes tgt ''next week'' then
        (let nextWeek = addWeeks (now P) 1
         in (succeeded ''Showing next week'',
             state\<lparr>dateRange := \<lparr>range_start = startOfWeek nextWeek,
                                   range_end = endOfWeek nextWeek\<rparr>\<rparr>))
      else
        (case (case regex_match False epRe tgt of
                 None \<Rightarrow> None
               | Some epMatch \<Rightarrow>
                   find (\<lambda>e. str_includes (ep_number e) (grp epMatch 1)) (episodes state)) of
           Some episode \<Rightarrow>
             (succeeded (''Selected episode '' @ ep_number episode),
              state\<lparr>selectedEpisodeId := Some (ep_id episode)\<rparr>)
         | None \<Rightarrow>
             (failure (''Not sure what to show: '' @ [dquote] @ targetText parsed @ [dquote]),
              state)))"

text \<open>
  With a current project that is not the demo project (\<open>remoteProject\<close>) the command goes
  to the backend, and the project is loaded again when the answer reports changes;
  otherwise the store parses the command itself.
\<close>

definition remoteProject :: "PostProState \<Rightarrow> Project option" where
  "remoteProject state =
     (case currentProject state of
        None \<Rightarrow> None
      | Some project \<Rightarrow> if p_id project \<noteq> ''demo-project'' then Some project else None)"

definition processCommand ::
  "platform \<Rightarrow> backend \<Rightarrow> string \<Rightarrow> PostProState \<Rightarrow> CommandResult \<times> PostProState" where
  "processCommand P B input state =
     (case remoteProject state of
        Some project \<Rightarrow>
          (case send_command B (p_id project) input
                  (case selectedEpisodeId state of
                     None \<Rightarrow> None | Some e \<Rightarrow> if e \<noteq> [] then Some e else None) of
             Rejected e \<Rightarrow>
               (failure (case e of None \<Rightarrow> ''Failed to process command'' | Some msg \<Rightarrow> msg), state)
           | Resolved response \<Rightarrow>
               (let state' = (if cr_success response \<and> length (orEmpty (cr_changes response)) > 0
                              then fetchProjectData P B (p_id project) state else state)
                in (\<lparr>success = cr_success response, message = cr_response response,
                     conflicts = (case cr_clarificationNeeded response of
                                    None \<Rightarrow> None
                                  | Some c \<Rightarrow>
                                      if c \<noteq> [] then
                                        Some [\<lparr>c_type = resource, severity = warning,
                                               c_message = c, affectedMilestones = [],
                                               suggestedResolution = None\<rparr>]
                                      else None)\<rparr>, state')))
      | None \<Rightarrow>
          (let parsed = parseCommand input in
           if action parsed = ''move'' then processMove P parsed state
           else if action parsed = ''what_if'' then processWhatIf P parsed state
           else if action parsed = ''late'' then processLate P state
           else if action parsed = ''blocking'' then processBlocking parsed state
           else if action parsed = ''show'' then processShow P parsed state
           else (failure (''I didn'' @ [apostrophe] @ ''t understand that. Try '' @ [dquote]
                          @ ''move 304 lock to Friday'' @ [dquote] @ '' or '' @ [dquote]
                          @ ''what'' @ [apostrophe] @ ''s late?'' @ [dquote]), state)))"

subsection \<open>The prerequisite relation of a catalog\<close>

text \<open>
  The edges of the catalog, from a type's code to each code it requires, and what it
  means for a catalog to contain a cycle.
\<close>

definition prerequisiteEdges :: "MilestoneType list \<Rightarrow> (string \<times> string) list" where
  "prerequisiteEdges catalog =
     concat (map (\<lambda>mt. map (\<lambda>c. (mt_code mt, c)) (requiresCompletionOf mt)) catalog)"

definition cyclicCatalog :: "MilestoneType list \<Rightarrow> bool" where
  "cyclicCatalog catalog = (\<not> acyclic (set (prerequisiteEdges catalog)))"

subsection \<open>The evaluator as the specification words it\<close>

text \<open>
  For a prerequisite code of the moved milestone's type: the milestone of the type with
  that code in the same episode, and, when its scheduled date is strictly after the
  proposed date, the blocking conflict that names both milestones and suggests a
  resolution; for no such milestone, or one that is not later, nothing.
\<close>

definition prerequisiteConflict ::
  "platform \<Rightarrow> PostProState \<Rightarrow> Milestone \<Rightarrow> MilestoneType \<Rightarrow> Date \<Rightarrow> string
     \<Rightarrow> ScheduleConflict option" where
  "prerequisiteConflict P state m T d code =
     (case find (\<lambda>mt. mt_code mt = code) (milestoneTypes state) of
        None \<Rightarrow> None
      | Some pt \<Rightarrow>
          (case find (\<lambda>x. episodeId x = episodeId m \<and> milestoneTypeId x = mt_id pt)
                  (milestones state) of
             None \<Rightarrow> None
           | Some pm \<Rightarrow>
               (case scheduledDate pm of
                  None \<Rightarrow> None
                | Some sd \<Rightarrow>
                    if isAfter sd d then
                      Some \<lparr>c_type = dependency, severity = error,
                            c_message = mt_code T @ '' cannot be before '' @ code
                              @ '' (scheduled '' @ toLocaleDateString P sd @ '')'',
                            affectedMilestones = [m_id m, m_id pm],
                            suggestedResolution = Some (''Move '' @ code
                              @ '' earlier or schedule '' @ mt_code T @ '' after ''
                              @ toLocaleDateString P sd)\<rparr>
                    else None)))"

text \<open>
  For a dependent type: its milestone in the same episode, and, when that is scheduled
  strictly before the proposed date, the warning that describes the forced shift.
\<close>

definition dependentConflict ::
  "platform \<Rightarrow> PostProState \<Rightarrow> Milestone \<Rightarrow> Date \<Rightarrow> MilestoneType \<Rightarrow> ScheduleConflict option" where
  "dependentConflict P state m d dt =
     (case find (\<lambda>x. episodeId x = episodeId m \<and> milestoneTypeId x = mt_id dt)
             (milestones state) of
        None \<Rightarrow> None
      | Some dm \<Rightarrow>
          (case scheduledDate dm of
             None \<Rightarrow> None
           | Some sd \<Rightarrow>
               if isBefore sd d then
                 Some \<lparr>c_type = dependency, severity = warning,
                       c_message = ''This will require moving '' @ mt_code dt
                         @ '' (currently '' @ toLocaleDateString P sd @ '')'',
                       affectedMilestones = [m_id m, m_id dm],
                       suggestedResolution = Some (mt_code dt @ '' will cascade to after ''
                         @ toLocaleDateString P d)\<rparr>
               else None))"

text \<open>The dependents of a type: the types of the catalog, in catalog order, that list
  its code as a prerequisite.\<close>

definition dependentsOf :: "PostProState \<Rightarrow> MilestoneType \<Rightarrow> MilestoneType list" where
  "dependentsOf state T =
     filter (\<lambda>mt. mt_code T \<in> set (requiresCompletionOf mt)) (milestoneTypes state)"

text \<open>
  \<open>checkMove\<close>: the prerequisite conflicts, one for each listed prerequisite code that
  has one, in the order of the list, followed by the dependent conflicts, one for each
  dependent that has one.
\<close>

definition prerequisiteErrors ::
  "platform \<Rightarrow> PostProState \<Rightarrow> Milestone \<Rightarrow> MilestoneType \<Rightarrow> Date \<Rightarrow> ScheduleConflict list" where
  "prerequisiteErrors P state m T d =
     List.map_filter (prerequisiteConflict P state m T d) (requiresCompletionOf T)"

definition dependentWarnings ::
  "platform \<Rightarrow> PostProState \<Rightarrow> Milestone \<Rightarrow> MilestoneType \<Rightarrow> Date \<Rightarrow> ScheduleConflict list" where
  "dependentWarnings P state m T d =
     List.map_filter (dependentConflict P state m d) (dependentsOf state T)"

definition checkMove ::
  "platform \<Rightarrow> Milestone \<Rightarrow> Date \<Rightarrow> PostProState \<Rightarrow> ScheduleConflict list" where
  "checkMove P m d state =
     (case find (\<lambda>mt. mt_id mt = milestoneTypeId m) (milestoneTypes state) of
        None \<Rightarrow> []
      | Some T \<Rightarrow> prerequisiteErrors P state m T d @ dependentWarnings P state m T d)"

subsection \<open>A small schedule\<close>

text \<open>
  Episode 304 with an editor's cut on day 100 and a director's cut, which requires it, on
  day 200 (dates as time values), in the store's initial state; used to run the actions.
\<close>

definition ex_platform :: platform where
  "ex_platform =
     \<lparr>now = Date 1000,
      toLocaleDateString = (\<lambda>d. case d of Date t \<Rightarrow> ''a date'' | Invalid_Date \<Rightarrow> ''Invalid Date''),
      parseISO = (\<lambda>s. Some Invalid_Date),
      newDateOfString = (\<lambda>s. Invalid_Date)\<rparr>"

definition ex_type :: "string \<Rightarrow> string \<Rightarrow> int \<Rightarrow> string list \<Rightarrow> MilestoneType" where
  "ex_type i c n rs =
     \<lparr>mt_id = i, mt_projectId = ''demo-project'', mt_code = c, mt_name = c, mt_sortOrder = n,
      mt_defaultDurationDays = None, mt_isHardDeadline = False, mt_color = None, mt_icon = None,
      requiresCompletionOf = rs, mt_createdAt = Date 0\<rparr>"

definition ex_milestone :: "string \<Rightarrow> string \<Rightarrow> string \<Rightarrow> int \<Rightarrow> Milestone" where
  "ex_milestone i e t d =
     \<lparr>m_id = i, episodeId = e, milestoneTypeId = t, scheduledDate = Some (Date d),
      scheduledTime = None, completedDate = None, completedAt = None, status = ''scheduled'',
      m_notes = None, createdAt = Date 0, updatedAt = Date 0\<rparr>"

definition ex_state :: PostProState where
  "ex_state =
     \<lparr>currentProject = None, viewMode = gantt,
      dateRange = \<lparr>range_start = Date 0, range_end = Date 0\<rparr>,
      selectedEpisodeId = None, selectedMilestoneId = None,
      episodes = [\<lparr>ep_id = ''ep-4'', ep_projectId = ''demo-project'', ep_number = ''304'',
                   ep_title = Some [], ep_director = None, ep_editor = None, ep_sortOrder = 3,
                   ep_status = ''active'', ep_createdAt = Date 0, ep_updatedAt = Date 0\<rparr>],
      milestones = [ex_milestone ''ms-ec'' ''ep-4'' ''mt-ec'' 100,
                    ex_milestone ''ms-dc'' ''ep-4'' ''mt-dc'' 200],
      milestoneTypes = [ex_type ''mt-ec'' ''EC'' 1 [], ex_type ''mt-dc'' ''DC'' 2 [''EC'']],
      workItems = [], calendarEvents = [], crewMembers = [], sessions = [],
      isLoading = False, isSaving = False, error_msg = None, showOnboarding = False\<rparr>"


text \<open>
  The same schedule as the current project of a backend that is out of reach, and a
  backend whose project has a catalog of two types that require each other.
\<close>

definition ex_remote_state :: PostProState where
  "ex_remote_state =
     ex_state\<lparr>currentProject := Some
        \<lparr>p_id = ''project-1'', p_organizationId = ''org-1'', p_name = ''Show'', p_code = None,
         p_seasonNumber = None, p_status = ''active'',
         p_settings = \<lparr>defaultMilestoneTypes = None, workWeekDays = None, timezone = None\<rparr>,
         p_createdAt = Date 0, p_updatedAt = Date 0\<rparr>\<rparr>"

definition ex_offline_backend :: backend where
  "ex_offline_backend =
     \<lparr>get_project = (\<lambda>projectId. Rejected (Some ''Network error'')),
      send_command = (\<lambda>projectId input episode. Rejected (Some ''Network error''))\<rparr>"

definition ex_api_type :: "string \<Rightarrow> string \<Rightarrow> string list \<Rightarrow> api_milestone_type" where
  "ex_api_type i c rs =
     \<lparr>at_id = i, at_project_id = ''project-1'', at_code = c, at_name = c, at_sort_order = 1,
      at_is_hard_deadline = False, at_requires_completion_of = Some rs,
      at_created_at = ''2024-01-01''\<rparr>"

definition ex_cyclic_backend :: backend where
  "ex_cyclic_backend =
     \<lparr>get_project = (\<lambda>projectId. Resolved
        \<lparr>ap_id = projectId, ap_organization_id = ''org-1'', ap_name = ''Show'', ap_code = None,
         ap_season_number = None, ap_status = ''active'', ap_settings = None,
         ap_created_at = ''2024-01-01'', ap_updated_at = ''2024-01-01'',
         ap_episodes = None, ap_milestones = None,
         ap_milestone_types = Some [ex_api_type ''mt-a'' ''A'' [''B''],
                                    ex_api_type ''mt-b'' ''B'' [''A'']],
         ap_calendar_events = None\<rparr>),
      send_command = (\<lambda>projectId input episode. Rejected (Some ''Network error''))\<rparr>"

section \<open>Properties\<close>

subsection \<open>moveMilestone: the three outcomes\<close>

lemma moveMilestone_not_found:
  "find (\<lambda>m. m_id m = i) (milestones state) = None \<Longrightarrow>
   moveMilestone P i newDate state =
     (\<lparr>success = False, message = ''Milestone not found'', conflicts = None\<rparr>, state)"
  by (simp add: moveMilestone_def)

lemma moveMilestone_blocked:
  "find (\<lambda>m. m_id m = i) (milestones state) = Some milestone \<Longrightarrow>
   list_ex (\<lambda>c. severity c = error) (checkDependencies P milestone newDate state) \<Longrightarrow>
   moveMilestone P i newDate state =
     (\<lparr>success = False, message = ''Cannot move milestone due to dependency conflicts'',
       conflicts = Some (checkDependencies P milestone newDate state)\<rparr>, state)"
  by (simp add: moveMilestone_def)

lemma moveMilestone_applied:
  "find (\<lambda>m. m_id m = i) (milestones state) = Some milestone \<Longrightarrow>
   \<not> list_ex (\<lambda>c. severity c = error) (checkDependencies P milestone newDate state) \<Longrightarrow>
   moveMilestone P i newDate state =
     (\<lparr>success = True,
       message = ''Moved ''
         @ (case find (\<lambda>e. ep_id e = episodeId milestone) (episodes state) of
              None \<Rightarrow> ''undefined'' | Some e \<Rightarrow> ep_number e) @ '' ''
         @ (case find (\<lambda>mt. mt_id mt = milestoneTypeId milestone) (milestoneTypes state) of
              None \<Rightarrow> ''undefined'' | Some mt \<Rightarrow> mt_code mt)
         @ '' to '' @ toLocaleDateString P newDate,
       conflicts = (if checkDependencies P milestone newDate state \<noteq> []
                    then Some (checkDependencies P milestone newDate state) else None)\<rparr>,
      state\<lparr>milestones :=
         map (\<lambda>m. if m_id m = i then m\<lparr>scheduledDate := Some newDate, updatedAt := now P\<rparr> else m)
           (milestones state)\<rparr>)"
  by (simp add: moveMilestone_def Let_def)

lemma moveMilestone_failure_state:
  assumes "moveMilestone P i newDate state = (r, state')" "\<not> success r"
  shows "state' = state"
proof (cases "find (\<lambda>m. m_id m = i) (milestones state)")
  case None
  from moveMilestone_not_found[OF None, of P newDate] assms show ?thesis by simp
next
  case (Some milestone)
  show ?thesis
  proof (cases "list_ex (\<lambda>c. severity c = error) (checkDependencies P milestone newDate state)")
    case True
    from moveMilestone_blocked[OF Some True] assms show ?thesis by simp
  next
    case False
    from moveMilestone_applied[OF Some False] assms(1) have "success r" by auto
    with assms(2) show ?thesis by simp
  qed
qed

lemma moveMilestone_success_state:
  assumes "moveMilestone P i newDate state = (r, state')" "success r"
  shows "state' = state\<lparr>milestones :=
           map (\<lambda>m. if m_id m = i then m\<lparr>scheduledDate := Some newDate, updatedAt := now P\<rparr> else m)
             (milestones state)\<rparr>"
    and "\<exists>m. find (\<lambda>m. m_id m = i) (milestones state) = Some m"
proof -
  have "state' = state\<lparr>milestones :=
           map (\<lambda>m. if m_id m = i then m\<lparr>scheduledDate := Some newDate, updatedAt := now P\<rparr> else m)
             (milestones state)\<rparr> \<and> (\<exists>m. find (\<lambda>m. m_id m = i) (milestones state) = Some m)"
  proof (cases "find (\<lambda>m. m_id m = i) (milestones state)")
    case None
    from moveMilestone_not_found[OF None, of P newDate] assms show ?thesis by auto
  next
    case (Some milestone)
    show ?thesis
    proof (cases "list_ex (\<lambda>c. severity c = error) (checkDependencies P milestone newDate state)")
      case True
      from moveMilestone_blocked[OF Some True] assms show ?thesis by auto
    next
      case False
      from moveMilestone_applied[OF Some False] assms(1) Some show ?thesis by simp
    qed
  qed
  then show "state' = state\<lparr>milestones :=
           map (\<lambda>m. if m_id m = i then m\<lparr>scheduledDate := Some newDate, updatedAt := now P\<rparr> else m)
             (milestones state)\<rparr>"
    and "\<exists>m. find (\<lambda>m. m_id m = i) (milestones state) = Some m" by simp_all
qed

lemma find_map_if:
  assumes "\<And>x. p x \<Longrightarrow> p (f x)"
  shows "find p (map (\<lambda>x. if p x then f x else x) xs) = map_option f (find p xs)"
  by (induction xs) (simp_all add: assms)

lemma set_map_if:
  "y \<in> set (map (\<lambda>x. if p x then f x else x) xs) \<Longrightarrow> p y \<Longrightarrow> \<exists>x. y = f x"
  by (induction xs) (auto split: if_splits)

lemmas ex_defs = ex_platform_def ex_type_def ex_milestone_def ex_state_def

lemmas checker_defs = checkDependencies_def prereq_step_def dependent_step_def

lemma ex_move_early:
  "success (fst (moveMilestone ex_platform ''ms-dc'' (Date 50) ex_state)) = False"
  by (simp add: moveMilestone_def checker_defs ex_defs)

lemma ex_move_late:
  "success (fst (moveMilestone ex_platform ''ms-dc'' (Date 300) ex_state)) \<and>
   conflicts (fst (moveMilestone ex_platform ''ms-dc'' (Date 300) ex_state)) = None"
  by (simp add: moveMilestone_def checker_defs ex_defs)

text \<open>
  Claim C1. Whatever the state and the call \<open>moveMilestone(id, newDate)\<close>: when the result
  has \<open>success = false\<close> (milestone not found, or a blocking conflict) the state after the
  call is the state before it, so no milestone is changed and the target keeps its
  scheduled date; when the result has \<open>success = true\<close> and no conflicts, the milestone
  found under the id afterwards, and every milestone carrying that id, has \<open>newDate\<close> as
  its scheduled date.
\<close>

theorem moveMilestone_rejects_or_sets_date:
  "moveMilestone P i newDate state = (r, state') \<Longrightarrow>
     (\<not> success r \<longrightarrow> state' = state) \<and>
     (success r \<and> conflicts r = None \<longrightarrow>
        (\<exists>m. find (\<lambda>m. m_id m = i) (milestones state') = Some m \<and> scheduledDate m = Some newDate) \<and>
        (\<forall>m \<in> set (milestones state'). m_id m = i \<longrightarrow> scheduledDate m = Some newDate))"
proof (intro conjI impI)
  assume mv: "moveMilestone P i newDate state = (r, state')"
  { assume "\<not> success r"
    with mv show "state' = state" by (rule moveMilestone_failure_state) }
  { assume "success r \<and> conflicts r = None"
    then have s: "success r" by simp
    from moveMilestone_success_state[OF mv s] obtain m where
      st: "state' = state\<lparr>milestones :=
             map (\<lambda>m. if m_id m = i then m\<lparr>scheduledDate := Some newDate, updatedAt := now P\<rparr> else m)
               (milestones state)\<rparr>"
      and f: "find (\<lambda>m. m_id m = i) (milestones state) = Some m" by blast
    show "\<exists>m. find (\<lambda>m. m_id m = i) (milestones state') = Some m \<and> scheduledDate m = Some newDate"
      using find_map_if[of "\<lambda>m. m_id m = i"
              "\<lambda>m. m\<lparr>scheduledDate := Some newDate, updatedAt := now P\<rparr>" "milestones state"] f st
      by simp
    show "\<forall>m \<in> set (milestones state'). m_id m = i \<longrightarrow> scheduledDate m = Some newDate"
    proof (intro ballI impI)
      fix m' assume "m' \<in> set (milestones state')" "m_id m' = i"
      with st set_map_if[of m' "\<lambda>m. m_id m = i"
              "\<lambda>m. m\<lparr>scheduledDate := Some newDate, updatedAt := now P\<rparr>" "milestones state"]
      obtain x where "m' = x\<lparr>scheduledDate := Some newDate, updatedAt := now P\<rparr>" by auto
      then show "scheduledDate m' = Some newDate" by simp
    qed }
qed

theorem moveMilestone_rejects_or_sets_date_witness:
  "\<not> success (fst (moveMilestone ex_platform ''ms-dc'' (Date 50) ex_state)) \<and>
   snd (moveMilestone ex_platform ''ms-dc'' (Date 50) ex_state) = ex_state \<and>
   success (fst (moveMilestone ex_platform ''ms-dc'' (Date 300) ex_state)) \<and>
   conflicts (fst (moveMilestone ex_platform ''ms-dc'' (Date 300) ex_state)) = None \<and>
   (\<exists>m. find (\<lambda>m. m_id m = ''ms-dc'')
          (milestones (snd (moveMilestone ex_platform ''ms-dc'' (Date 300) ex_state))) = Some m \<and>
        scheduledDate m = Some (Date 300))"
  using moveMilestone_rejects_or_sets_date
          [of ex_platform "''ms-dc''" "Date 50" ex_state, OF surjective_pairing]
        moveMilestone_rejects_or_sets_date
          [of ex_platform "''ms-dc''" "Date 300" ex_state, OF surjective_pairing]
        ex_move_early ex_move_late
  by blast

text \<open>
  Claim C10. After a successful \<open>moveMilestone(id, newDate)\<close> the milestone list has the
  same length; a milestone whose id is not the target's is the same record as before; a
  milestone with the target's id is the record it was with \<open>scheduledDate\<close> set to
  \<open>newDate\<close> and \<open>updatedAt\<close> to the clock, every other field kept; and the state is the
  old state with only its milestone list replaced, so the episodes, milestone types,
  calendar events, work items, sessions and crew members are unchanged.
\<close>

theorem moveMilestone_frame:
  assumes "moveMilestone P i newDate state = (r, state')" "success r"
  shows
    "length (milestones state') = length (milestones state) \<and>
     (\<forall>k < length (milestones state).
        (m_id (milestones state ! k) \<noteq> i \<longrightarrow> milestones state' ! k = milestones state ! k) \<and>
        (m_id (milestones state ! k) = i \<longrightarrow>
           milestones state' ! k =
             (milestones state ! k)\<lparr>scheduledDate := Some newDate, updatedAt := now P\<rparr> \<and>
           status (milestones state' ! k) = status (milestones state ! k) \<and>
           m_notes (milestones state' ! k) = m_notes (milestones state ! k) \<and>
           episodeId (milestones state' ! k) = episodeId (milestones state ! k) \<and>
           milestoneTypeId (milestones state' ! k) = milestoneTypeId (milestones state ! k))) \<and>
     state' = state\<lparr>milestones := milestones state'\<rparr> \<and>
     episodes state' = episodes state \<and> milestoneTypes state' = milestoneTypes state \<and>
     calendarEvents state' = calendarEvents state \<and> workItems state' = workItems state \<and>
     sessions state' = sessions state \<and> crewMembers state' = crewMembers state"
  using moveMilestone_success_state(1)[OF assms] by simp

theorem moveMilestone_frame_witness:
  "success (fst (moveMilestone ex_platform ''ms-dc'' (Date 300) ex_state)) \<and>
   milestones (snd (moveMilestone ex_platform ''ms-dc'' (Date 300) ex_state)) ! 0
     = milestones ex_state ! 0 \<and>
   milestones (snd (moveMilestone ex_platform ''ms-dc'' (Date 300) ex_state)) ! 1
     = (milestones ex_state ! 1)\<lparr>scheduledDate := Some (Date 300), updatedAt := Date 1000\<rparr> \<and>
   episodes (snd (moveMilestone ex_platform ''ms-dc'' (Date 300) ex_state)) = episodes ex_state"
proof -
  have ok: "success (fst (moveMilestone ex_platform ''ms-dc'' (Date 300) ex_state))"
    using ex_move_late by simp
  have len: "length (milestones ex_state) = 2"
    and ids: "m_id (milestones ex_state ! 0) \<noteq> ''ms-dc''" "m_id (milestones ex_state ! 1) = ''ms-dc''"
    and clock: "now ex_platform = Date 1000"
    by (simp_all add: ex_defs)
  from moveMilestone_frame
         [of ex_platform "''ms-dc''" "Date 300" ex_state, OF surjective_pairing ok] len ids clock
  show ?thesis using ok by simp
qed


subsection \<open>The checker computes the specified list\<close>

lemma prereq_step_eq:
  "prereq_step P m d state T code acc =
     acc @ (case prerequisiteConflict P state m T d code of None \<Rightarrow> [] | Some c \<Rightarrow> [c])"
  by (simp add: prereq_step_def prerequisiteConflict_def split: option.splits)

lemma dependent_step_eq:
  "dependent_step P m d state dt acc =
     acc @ (case dependentConflict P state m d dt of None \<Rightarrow> [] | Some c \<Rightarrow> [c])"
  by (simp add: dependent_step_def dependentConflict_def split: option.splits)

lemma fold_append_map_filter:
  assumes "\<And>x acc. step x acc = acc @ (case f x of None \<Rightarrow> [] | Some c \<Rightarrow> [c])"
  shows "fold step xs acc = acc @ List.map_filter f xs"
proof (induction xs arbitrary: acc)
  case Nil
  show ?case by (simp add: List.map_filter_simps)
next
  case (Cons x xs)
  have "fold step (x # xs) acc = fold step xs (step x acc)" by simp
  also have "\<dots> = step x acc @ List.map_filter f xs" by (rule Cons.IH)
  also have "\<dots> = acc @ List.map_filter f (x # xs)"
    by (simp add: assms List.map_filter_simps split: option.splits)
  finally show ?case .
qed

lemma checkDependencies_checkMove:
  "checkDependencies P m d state = checkMove P m d state"
  by (simp add: checkDependencies_def checkMove_def prerequisiteErrors_def dependentWarnings_def
        dependentsOf_def Let_def
        fold_append_map_filter[of "prereq_step P m d state T" "prerequisiteConflict P state m T d" for T, OF prereq_step_eq]
        fold_append_map_filter[of "dependent_step P m d state" "dependentConflict P state m d", OF dependent_step_eq]
        split: option.splits)

lemma prerequisiteConflict_shape:
  "prerequisiteConflict P state m T d code = Some c \<Longrightarrow>
     c_type c = dependency \<and> severity c = error \<and> suggestedResolution c \<noteq> None \<and>
     length (affectedMilestones c) = 2 \<and> hd (affectedMilestones c) = m_id m"
  by (simp add: prerequisiteConflict_def split: option.splits if_splits) fastforce

lemma dependentConflict_shape:
  "dependentConflict P state m d dt = Some c \<Longrightarrow>
     c_type c = dependency \<and> severity c = warning \<and> suggestedResolution c \<noteq> None \<and>
     length (affectedMilestones c) = 2 \<and> hd (affectedMilestones c) = m_id m"
  by (simp add: dependentConflict_def split: option.splits if_splits) fastforce

lemma map_filter_all:
  assumes "\<And>x c. f x = Some c \<Longrightarrow> Q c"
  shows "list_all Q (List.map_filter f xs)"
  by (induction xs) (auto simp: List.map_filter_simps assms split: option.splits)

lemma prerequisiteErrors_all:
  "list_all (\<lambda>c. c_type c = dependency \<and> severity c = error) (prerequisiteErrors P state m T d)"
  unfolding prerequisiteErrors_def
  by (rule map_filter_all) (use prerequisiteConflict_shape in blast)

lemma dependentWarnings_all:
  "list_all (\<lambda>c. c_type c = dependency \<and> severity c = warning) (dependentWarnings P state m T d)"
  unfolding dependentWarnings_def
  by (rule map_filter_all) (use dependentConflict_shape in blast)

text \<open>
  Claim C2. For every state (the catalog need not even be acyclic), every milestone and
  every proposed date, the checker returns exactly the list the specification describes,
  \<open>checkMove\<close>: nothing when the milestone's type is not in the catalog, and otherwise
  the prerequisite conflicts, one for each code listed in the type's
  \<open>requiresCompletionOf\<close>, in the order listed, whose milestone in the same episode is
  scheduled strictly after the proposed date, followed by the dependent conflicts, one for
  each type listing this type's code, in catalog order, whose milestone in the same
  episode is scheduled strictly before the proposed date. Every conflict of the first part
  has kind \<open>dependency\<close> and severity \<open>error\<close>, every conflict of the second part has kind
  \<open>dependency\<close> and severity \<open>warning\<close>; each names two milestones, the moved one first,
  and suggests a resolution.
\<close>

theorem checkDependencies_conflicts:
  "checkDependencies P m d state = checkMove P m d state \<and>
   (case find (\<lambda>mt. mt_id mt = milestoneTypeId m) (milestoneTypes state) of
      None \<Rightarrow> checkDependencies P m d state = []
    | Some T \<Rightarrow>
        checkDependencies P m d state
          = prerequisiteErrors P state m T d @ dependentWarnings P state m T d \<and>
        list_all (\<lambda>c. c_type c = dependency \<and> severity c = error \<and> suggestedResolution c \<noteq> None \<and>
                       length (affectedMilestones c) = 2 \<and> hd (affectedMilestones c) = m_id m)
          (prerequisiteErrors P state m T d) \<and>
        list_all (\<lambda>c. c_type c = dependency \<and> severity c = warning \<and> suggestedResolution c \<noteq> None \<and>
                       length (affectedMilestones c) = 2 \<and> hd (affectedMilestones c) = m_id m)
          (dependentWarnings P state m T d))"
proof (cases "find (\<lambda>mt. mt_id mt = milestoneTypeId m) (milestoneTypes state)")
  case None
  then show ?thesis by (simp add: checkDependencies_checkMove checkMove_def)
next
  case (Some T)
  have e: "list_all (\<lambda>c. c_type c = dependency \<and> severity c = error \<and> suggestedResolution c \<noteq> None \<and>
                       length (affectedMilestones c) = 2 \<and> hd (affectedMilestones c) = m_id m)
          (prerequisiteErrors P state m T d)"
    unfolding prerequisiteErrors_def
    by (rule map_filter_all) (rule prerequisiteConflict_shape)
  have w: "list_all (\<lambda>c. c_type c = dependency \<and> severity c = warning \<and> suggestedResolution c \<noteq> None \<and>
                       length (affectedMilestones c) = 2 \<and> hd (affectedMilestones c) = m_id m)
          (dependentWarnings P state m T d)"
    unfolding dependentWarnings_def
    by (rule map_filter_all) (rule dependentConflict_shape)
  from Some e w show ?thesis by (simp add: checkDependencies_checkMove checkMove_def)
qed

lemma ex_check_early:
  "checkDependencies ex_platform (ex_milestone ''ms-dc'' ''ep-4'' ''mt-dc'' 200) (Date 50) ex_state
     = [\<lparr>c_type = dependency, severity = error,
         c_message = ''DC cannot be before EC (scheduled a date)'',
         affectedMilestones = [''ms-dc'', ''ms-ec''],
         suggestedResolution = Some ''Move EC earlier or schedule DC after a date''\<rparr>]"
  by (simp add: checker_defs ex_defs)

text \<open>
  Claim C9. The conflict list is a function of the arguments, and of the state it reads
  only the catalog and the milestone list: two calls with the same milestone and date, on
  states with the same catalog and the same milestones, return the same conflicts with
  the same fields in the same order. Two calls with identical arguments are the case of
  equal states. Acyclicity of the catalog is not needed.
\<close>

theorem checkDependencies_deterministic:
  assumes "milestoneTypes s1 = milestoneTypes s2" and "milestones s1 = milestones s2"
  shows "checkDependencies P m d s1 = checkDependencies P m d s2"
proof -
  have ps: "prereq_step P m d s1 = prereq_step P m d s2"
    by (intro ext) (simp only: prereq_step_def assms)
  have ds: "dependent_step P m d s1 = dependent_step P m d s2"
    by (intro ext) (simp only: dependent_step_def assms)
  show ?thesis
    by (simp only: checkDependencies_def assms ps ds)
qed

theorem checkDependencies_deterministic_witness:
  "checkDependencies ex_platform (ex_milestone ''ms-dc'' ''ep-4'' ''mt-dc'' 200) (Date 50) ex_state
     = checkDependencies ex_platform (ex_milestone ''ms-dc'' ''ep-4'' ''mt-dc'' 200) (Date 50)
         (ex_state\<lparr>viewMode := grid, selectedEpisodeId := Some ''ep-4''\<rparr>)"
  using checkDependencies_deterministic
          [of ex_state "ex_state\<lparr>viewMode := grid, selectedEpisodeId := Some ''ep-4''\<rparr>"
              ex_platform "ex_milestone ''ms-dc'' ''ep-4'' ''mt-dc'' 200" "Date 50"]
  by simp

subsection \<open>moveMilestone: blocking and warnings\<close>

lemma checkDependencies_severity:
  assumes "c \<in> set (checkDependencies P m d state)"
  shows "severity c = error \<or> severity c = warning"
proof (cases "find (\<lambda>mt. mt_id mt = milestoneTypeId m) (milestoneTypes state)")
  case None
  with assms show ?thesis by (simp add: checkDependencies_checkMove checkMove_def)
next
  case (Some T)
  with assms have "c \<in> set (prerequisiteErrors P state m T d) \<or> c \<in> set (dependentWarnings P state m T d)"
    by (simp add: checkDependencies_checkMove checkMove_def)
  then show ?thesis
    using prerequisiteErrors_all[of P state m T d] dependentWarnings_all[of P state m T d]
    by (auto simp: list_all_iff)
qed

text \<open>
  Claim C3. For a milestone found under the id, \<open>moveMilestone\<close> fails exactly when the
  checker reports a conflict of severity \<open>error\<close>; the failure carries the message
  \<open>Cannot move milestone due to dependency conflicts\<close> and the whole conflict list, and
  leaves the state alone. Otherwise the move is applied and succeeds, every conflict
  reported is a warning, and the warnings are attached to the result (no list at all when
  there are none). In particular, when no prerequisite is violated and the type has one
  dependent, whose milestone in the episode is scheduled before the proposed date, the
  move succeeds and carries exactly one conflict, a warning that names the moved milestone
  and the dependent one.
\<close>

theorem moveMilestone_blocked_iff_error:
  assumes found: "find (\<lambda>m. m_id m = i) (milestones state) = Some milestone"
      and mv: "moveMilestone P i newDate state = (r, state')"
  shows
    "(\<not> success r \<longleftrightarrow> (\<exists>c \<in> set (checkDependencies P milestone newDate state). severity c = error)) \<and>
     (\<not> success r \<longrightarrow>
        message r = ''Cannot move milestone due to dependency conflicts'' \<and>
        conflicts r = Some (checkDependencies P milestone newDate state) \<and> state' = state) \<and>
     (success r \<longrightarrow>
        state' = state\<lparr>milestones :=
           map (\<lambda>m. if m_id m = i then m\<lparr>scheduledDate := Some newDate, updatedAt := now P\<rparr> else m)
             (milestones state)\<rparr> \<and>
        conflicts r = (if checkDependencies P milestone newDate state = [] then None
                       else Some (checkDependencies P milestone newDate state)) \<and>
        (\<forall>c \<in> set (checkDependencies P milestone newDate state). severity c = warning)) \<and>
     (\<forall>T dt dm sd.
        find (\<lambda>mt. mt_id mt = milestoneTypeId milestone) (milestoneTypes state) = Some T \<and>
        prerequisiteErrors P state milestone T newDate = [] \<and>
        dependentsOf state T = [dt] \<and>
        find (\<lambda>x. episodeId x = episodeId milestone \<and> milestoneTypeId x = mt_id dt)
          (milestones state) = Some dm \<and>
        scheduledDate dm = Some sd \<and> isBefore sd newDate \<longrightarrow>
        success r \<and>
        (\<exists>w. conflicts r = Some [w] \<and> severity w = warning \<and>
              affectedMilestones w = [m_id milestone, m_id dm]))"
proof -
  let ?cs = "checkDependencies P milestone newDate state"
  let ?applied = "state\<lparr>milestones :=
           map (\<lambda>m. if m_id m = i then m\<lparr>scheduledDate := Some newDate, updatedAt := now P\<rparr> else m)
             (milestones state)\<rparr>"
  have outcome:
    "(list_ex (\<lambda>c. severity c = error) ?cs \<and> \<not> success r \<and>
        message r = ''Cannot move milestone due to dependency conflicts'' \<and>
        conflicts r = Some ?cs \<and> state' = state) \<or>
     (\<not> list_ex (\<lambda>c. severity c = error) ?cs \<and> success r \<and>
        conflicts r = (if ?cs = [] then None else Some ?cs) \<and> state' = ?applied)"
  proof (cases "list_ex (\<lambda>c. severity c = error) ?cs")
    case True
    from moveMilestone_blocked[OF found True] mv show ?thesis using True by auto
  next
    case False
    from moveMilestone_applied[OF found False] mv show ?thesis using False by auto
  qed
  have c1: "\<not> success r \<longleftrightarrow> (\<exists>c \<in> set ?cs. severity c = error)"
    using outcome by (auto simp: list_ex_iff)
  have c2: "\<not> success r \<longrightarrow>
        message r = ''Cannot move milestone due to dependency conflicts'' \<and>
        conflicts r = Some ?cs \<and> state' = state"
    using outcome by blast
  have warn: "success r \<Longrightarrow> c \<in> set ?cs \<Longrightarrow> severity c = warning" for c
    using c1 checkDependencies_severity[of c P milestone newDate state] by blast
  have c3: "success r \<longrightarrow> state' = ?applied \<and>
        conflicts r = (if ?cs = [] then None else Some ?cs) \<and>
        (\<forall>c \<in> set ?cs. severity c = warning)"
    using outcome warn by blast
  have c4: "\<forall>T dt dm sd.
        find (\<lambda>mt. mt_id mt = milestoneTypeId milestone) (milestoneTypes state) = Some T \<and>
        prerequisiteErrors P state milestone T newDate = [] \<and>
        dependentsOf state T = [dt] \<and>
        find (\<lambda>x. episodeId x = episodeId milestone \<and> milestoneTypeId x = mt_id dt)
          (milestones state) = Some dm \<and>
        scheduledDate dm = Some sd \<and> isBefore sd newDate \<longrightarrow>
        success r \<and>
        (\<exists>w. conflicts r = Some [w] \<and> severity w = warning \<and>
              affectedMilestones w = [m_id milestone, m_id dm])"
  proof (intro allI impI)
    fix T dt dm sd
    assume h: "find (\<lambda>mt. mt_id mt = milestoneTypeId milestone) (milestoneTypes state) = Some T \<and>
        prerequisiteErrors P state milestone T newDate = [] \<and>
        dependentsOf state T = [dt] \<and>
        find (\<lambda>x. episodeId x = episodeId milestone \<and> milestoneTypeId x = mt_id dt)
          (milestones state) = Some dm \<and>
        scheduledDate dm = Some sd \<and> isBefore sd newDate"
    then have one: "\<exists>w. ?cs = [w] \<and> severity w = warning \<and>
              affectedMilestones w = [m_id milestone, m_id dm]"
      by (simp add: checkDependencies_checkMove checkMove_def dependentWarnings_def
            dependentConflict_def List.map_filter_simps)
    then have "\<not> list_ex (\<lambda>c. severity c = error) ?cs" by auto
    with outcome have ok: "success r" and cf: "conflicts r = (if ?cs = [] then None else Some ?cs)"
      by blast+
    from one cf have "\<exists>w. conflicts r = Some [w] \<and> severity w = warning \<and>
              affectedMilestones w = [m_id milestone, m_id dm]" by auto
    with ok show "success r \<and>
        (\<exists>w. conflicts r = Some [w] \<and> severity w = warning \<and>
              affectedMilestones w = [m_id milestone, m_id dm])" ..
  qed
  show ?thesis by (rule conjI[OF c1 conjI[OF c2 conjI[OF c3 c4]]])
qed

theorem moveMilestone_blocked_iff_error_witness:
  "\<not> success (fst (moveMilestone ex_platform ''ms-dc'' (Date 50) ex_state)) \<and>
   (\<exists>c \<in> set (checkDependencies ex_platform (ex_milestone ''ms-dc'' ''ep-4'' ''mt-dc'' 200)
                  (Date 50) ex_state). severity c = error) \<and>
   success (fst (moveMilestone ex_platform ''ms-ec'' (Date 250) ex_state)) \<and>
   (\<exists>w. conflicts (fst (moveMilestone ex_platform ''ms-ec'' (Date 250) ex_state)) = Some [w] \<and>
        severity w = warning \<and> affectedMilestones w = [''ms-ec'', ''ms-dc''])"
proof -
  have dc: "find (\<lambda>m. m_id m = ''ms-dc'') (milestones ex_state)
              = Some (ex_milestone ''ms-dc'' ''ep-4'' ''mt-dc'' 200)"
    by (simp add: ex_defs)
  have ec: "find (\<lambda>m. m_id m = ''ms-ec'') (milestones ex_state)
              = Some (ex_milestone ''ms-ec'' ''ep-4'' ''mt-ec'' 100)"
    by (simp add: ex_defs)
  have err: "\<exists>c \<in> set (checkDependencies ex_platform (ex_milestone ''ms-dc'' ''ep-4'' ''mt-dc'' 200)
                  (Date 50) ex_state). severity c = error"
    by (simp add: checker_defs ex_defs)
  have scenario:
    "find (\<lambda>mt. mt_id mt = milestoneTypeId (ex_milestone ''ms-ec'' ''ep-4'' ''mt-ec'' 100))
       (milestoneTypes ex_state) = Some (ex_type ''mt-ec'' ''EC'' 1 []) \<and>
     prerequisiteErrors ex_platform ex_state (ex_milestone ''ms-ec'' ''ep-4'' ''mt-ec'' 100)
       (ex_type ''mt-ec'' ''EC'' 1 []) (Date 250) = [] \<and>
     dependentsOf ex_state (ex_type ''mt-ec'' ''EC'' 1 []) = [ex_type ''mt-dc'' ''DC'' 2 [''EC'']] \<and>
     find (\<lambda>x. episodeId x = episodeId (ex_milestone ''ms-ec'' ''ep-4'' ''mt-ec'' 100) \<and>
              milestoneTypeId x = mt_id (ex_type ''mt-dc'' ''DC'' 2 [''EC'']))
       (milestones ex_state) = Some (ex_milestone ''ms-dc'' ''ep-4'' ''mt-dc'' 200) \<and>
     scheduledDate (ex_milestone ''ms-dc'' ''ep-4'' ''mt-dc'' 200) = Some (Date 200) \<and>
     isBefore (Date 200) (Date 250)"
    by (simp add: ex_defs prerequisiteErrors_def dependentsOf_def List.map_filter_simps)
  have ids: "m_id (ex_milestone ''ms-ec'' ''ep-4'' ''mt-ec'' 100) = ''ms-ec''"
    "m_id (ex_milestone ''ms-dc'' ''ep-4'' ''mt-dc'' 200) = ''ms-dc''"
    by (simp_all add: ex_defs)
  from moveMilestone_blocked_iff_error[OF dc surjective_pairing, of ex_platform "Date 50"] err
  have a: "\<not> success (fst (moveMilestone ex_platform ''ms-dc'' (Date 50) ex_state))" by blast
  from moveMilestone_blocked_iff_error[OF ec surjective_pairing, of ex_platform "Date 250"] scenario
  have b: "success (fst (moveMilestone ex_platform ''ms-ec'' (Date 250) ex_state)) \<and>
        (\<exists>w. conflicts (fst (moveMilestone ex_platform ''ms-ec'' (Date 250) ex_state)) = Some [w] \<and>
              severity w = warning \<and>
              affectedMilestones w = [m_id (ex_milestone ''ms-ec'' ''ep-4'' ''mt-ec'' 100),
                                      m_id (ex_milestone ''ms-dc'' ''ep-4'' ''mt-dc'' 200)])"
    by blast
  from a err b show ?thesis unfolding ids by blast
qed

subsection \<open>The command parser on the documented phrases\<close>

text \<open>
  Claim C8, as the code has it. \<open>parse("move 304 lock to Friday")\<close> is the move command
  with episode reference \<open>304\<close>, milestone code \<open>LOCK\<close> and date text \<open>friday\<close>: the
  parser matches the lower-cased input, so the date text comes out in lower case and only
  the code is raised to upper case. \<open>parse("what's late?")\<close> is the late command with no
  target.
\<close>

theorem parseCommand_examples:
  "parseCommand ''move 304 lock to Friday''
     = \<lparr>action = ''move'', target = Some ''304'',
        params = [(''milestoneCode'', ''LOCK''), (''newDate'', ''friday'')]\<rparr> \<and>
   parseCommand (''what'' @ [apostrophe] @ ''s late?'')
     = \<lparr>action = ''late'', target = None, params = []\<rparr>"
  by code_simp

text \<open>The date text of the parsed command is not \<open>Friday\<close>, as claim C8 has it.\<close>

theorem parseCommand_date_text_counterexample:
  "map_of (params (parseCommand ''move 304 lock to Friday'')) ''newDate'' \<noteq> Some ''Friday''"
  by code_simp

subsection \<open>What-if commands\<close>

lemma processCommand_local:
  "remoteProject state = None \<Longrightarrow>
   processCommand P B input state =
     (let parsed = parseCommand input in
           if action parsed = ''move'' then processMove P parsed state
           else if action parsed = ''what_if'' then processWhatIf P parsed state
           else if action parsed = ''late'' then processLate P state
           else if action parsed = ''blocking'' then processBlocking parsed state
           else if action parsed = ''show'' then processShow P parsed state
           else (failure (''I didn'' @ [apostrophe] @ ''t understand that. Try '' @ [dquote]
                          @ ''move 304 lock to Friday'' @ [dquote] @ '' or '' @ [dquote]
                          @ ''what'' @ [apostrophe] @ ''s late?'' @ [dquote]), state))"
  by (simp add: processCommand_def)

lemma processWhatIf_resolved:
  "resolveTarget P parsed state = Inr (episode, milestoneType, milestone, newDate) \<Longrightarrow>
   success (fst (processWhatIf P parsed state)) \<and>
   snd (processWhatIf P parsed state) = state \<and>
   conflicts (fst (processWhatIf P parsed state))
     = (if checkDependencies P milestone newDate state = [] then None
        else Some (checkDependencies P milestone newDate state)) \<and>
   (checkDependencies P milestone newDate state = [] \<longrightarrow>
      message (fst (processWhatIf P parsed state))
        = ''Moving '' @ ep_number episode @ '' '' @ mt_code milestoneType @ '' to ''
          @ toLocaleDateString P newDate @ '' would have no conflicts.'')"
  by (simp add: processWhatIf_def succeeded_def Let_def)

lemma resolveTarget_fields:
  assumes "target p' = target p" and "params p' = params p"
  shows "resolveTarget P p' state = resolveTarget P p state"
  unfolding resolveTarget_def targetOrEmpty_def targetText_def param_def assms ..

lemma moveMilestone_conflicts:
  assumes "find (\<lambda>m. m_id m = i) (milestones state) = Some milestone"
  shows "conflicts (fst (moveMilestone P i newDate state))
     = (if checkDependencies P milestone newDate state = [] then None
        else Some (checkDependencies P milestone newDate state))"
proof (cases "list_ex (\<lambda>c. severity c = error) (checkDependencies P milestone newDate state)")
  case True
  then have "checkDependencies P milestone newDate state \<noteq> []" by auto
  with moveMilestone_blocked[OF assms True] show ?thesis by simp
next
  case False
  from moveMilestone_applied[OF assms False] show ?thesis by simp
qed

text \<open>
  Claim C5, as the code has it. When the store handles the command itself (there is no
  current project, or it is the demo project), a what-if command whose episode reference,
  milestone code and date text all resolve succeeds whatever the conflicts are, leaves the
  state as it was, and carries the conflict list the checker computes for the resolved
  milestone and date: no list, under the no-conflicts message, when it is empty. A move
  command with the same target and parameters attaches the very same list, provided the
  resolved milestone is the one found under its id, and succeeds exactly when the list
  holds no error.
\<close>

theorem what_if_is_a_dry_run:
  assumes "remoteProject state = None"
      and "action (parseCommand input) = ''what_if''"
      and "resolveTarget P (parseCommand input) state = Inr (episode, milestoneType, milestone, newDate)"
  shows
    "success (fst (processCommand P B input state)) \<and>
     snd (processCommand P B input state) = state \<and>
     conflicts (fst (processCommand P B input state))
       = (if checkDependencies P milestone newDate state = [] then None
          else Some (checkDependencies P milestone newDate state)) \<and>
     (checkDependencies P milestone newDate state = [] \<longrightarrow>
        message (fst (processCommand P B input state))
          = ''Moving '' @ ep_number episode @ '' '' @ mt_code milestoneType @ '' to ''
            @ toLocaleDateString P newDate @ '' would have no conflicts.'') \<and>
     (find (\<lambda>m. m_id m = m_id milestone) (milestones state) = Some milestone \<longrightarrow>
        (\<forall>input'. action (parseCommand input') = ''move'' \<and>
                  target (parseCommand input') = target (parseCommand input) \<and>
                  params (parseCommand input') = params (parseCommand input) \<longrightarrow>
           conflicts (fst (processCommand P B input' state))
             = conflicts (fst (processCommand P B input state)) \<and>
           (success (fst (processCommand P B input' state)) \<longleftrightarrow>
              \<not> list_ex (\<lambda>c. severity c = error) (checkDependencies P milestone newDate state))))"
proof -
  have wi: "processCommand P B input state = processWhatIf P (parseCommand input) state"
    using assms(1,2) by (simp add: processCommand_local Let_def)
  note r = processWhatIf_resolved[OF assms(3)]
  have mv: "conflicts (fst (processCommand P B input' state))
             = conflicts (fst (processCommand P B input state)) \<and>
           (success (fst (processCommand P B input' state)) \<longleftrightarrow>
              \<not> list_ex (\<lambda>c. severity c = error) (checkDependencies P milestone newDate state))"
    if f: "find (\<lambda>m. m_id m = m_id milestone) (milestones state) = Some milestone"
      and m: "action (parseCommand input') = ''move''"
             "target (parseCommand input') = target (parseCommand input)"
             "params (parseCommand input') = params (parseCommand input)" for input'
  proof -
    have "resolveTarget P (parseCommand input') state = Inr (episode, milestoneType, milestone, newDate)"
      using resolveTarget_fields[OF m(2,3)] assms(3) by simp
    then have pm: "processCommand P B input' state = moveMilestone P (m_id milestone) newDate state"
      using assms(1) m(1) by (simp add: processCommand_local Let_def processMove_def)
    have s: "success (fst (moveMilestone P (m_id milestone) newDate state)) \<longleftrightarrow>
              \<not> list_ex (\<lambda>c. severity c = error) (checkDependencies P milestone newDate state)"
      using moveMilestone_blocked[OF f, of P newDate] moveMilestone_applied[OF f, of P newDate]
      by (cases "list_ex (\<lambda>c. severity c = error) (checkDependencies P milestone newDate state)") simp_all
    show ?thesis using pm moveMilestone_conflicts[OF f, of P newDate] r s wi by simp
  qed
  show ?thesis using r mv unfolding wi by blast
qed

lemma ex_what_if_parsed:
  "parseCommand ''what if 304 dc slips to yesterday''
     = \<lparr>action = ''what_if'', target = Some ''304'',
        params = [(''milestoneCode'', ''DC''), (''newDate'', ''yesterday'')]\<rparr>"
  by code_simp

lemma ex_move_parsed:
  "parseCommand ''move 304 dc to yesterday''
     = \<lparr>action = ''move'', target = Some ''304'',
        params = [(''milestoneCode'', ''DC''), (''newDate'', ''yesterday'')]\<rparr>"
  by code_simp

lemma ex_yesterday:
  "parseDateReference ex_platform ''yesterday'' (Date 1000) = Some (Date (- 86399000))"
  by code_simp

lemma ex_resolved:
  "resolveTarget ex_platform
     \<lparr>action = a, target = Some ''304'',
      params = [(''milestoneCode'', ''DC''), (''newDate'', ''yesterday'')]\<rparr> (ex_state\<lparr>currentProject := p\<rparr>)
   = Inr (hd (episodes ex_state), ex_type ''mt-dc'' ''DC'' 2 [''EC''],
          ex_milestone ''ms-dc'' ''ep-4'' ''mt-dc'' 200, Date (- 86399000))"
proof -
  have n: "now ex_platform = Date 1000" by (simp add: ex_platform_def)
  show ?thesis
    by (simp add: resolveTarget_def targetOrEmpty_def param_def n ex_yesterday
          ex_state_def ex_type_def ex_milestone_def)
qed

lemma ex_check_yesterday:
  "checkDependencies ex_platform (ex_milestone ''ms-dc'' ''ep-4'' ''mt-dc'' 200)
     (Date (- 86399000)) (ex_state\<lparr>currentProject := p\<rparr>)
     = [\<lparr>c_type = dependency, severity = error,
         c_message = ''DC cannot be before EC (scheduled a date)'',
         affectedMilestones = [''ms-dc'', ''ms-ec''],
         suggestedResolution = Some ''Move EC earlier or schedule DC after a date''\<rparr>]"
  by (simp add: checker_defs ex_defs)

theorem what_if_is_a_dry_run_witness:
  "success (fst (processCommand ex_platform ex_offline_backend
                   ''what if 304 dc slips to yesterday'' ex_state)) \<and>
   snd (processCommand ex_platform ex_offline_backend
          ''what if 304 dc slips to yesterday'' ex_state) = ex_state \<and>
   conflicts (fst (processCommand ex_platform ex_offline_backend
                     ''what if 304 dc slips to yesterday'' ex_state))
     = Some [\<lparr>c_type = dependency, severity = error,
               c_message = ''DC cannot be before EC (scheduled a date)'',
               affectedMilestones = [''ms-dc'', ''ms-ec''],
               suggestedResolution = Some ''Move EC earlier or schedule DC after a date''\<rparr>] \<and>
   conflicts (fst (processCommand ex_platform ex_offline_backend
                     ''move 304 dc to yesterday'' ex_state))
     = conflicts (fst (processCommand ex_platform ex_offline_backend
                         ''what if 304 dc slips to yesterday'' ex_state)) \<and>
   \<not> success (fst (processCommand ex_platform ex_offline_backend
                     ''move 304 dc to yesterday'' ex_state))"
proof -
  have st: "ex_state\<lparr>currentProject := None\<rparr> = ex_state" by (simp add: ex_state_def)
  have local: "remoteProject ex_state = None" by (simp add: remoteProject_def ex_state_def)
  have act: "action (parseCommand ''what if 304 dc slips to yesterday'') = ''what_if''"
    by (simp add: ex_what_if_parsed)
  have res: "resolveTarget ex_platform (parseCommand ''what if 304 dc slips to yesterday'') ex_state
      = Inr (hd (episodes ex_state), ex_type ''mt-dc'' ''DC'' 2 [''EC''],
             ex_milestone ''ms-dc'' ''ep-4'' ''mt-dc'' 200, Date (- 86399000))"
    using ex_resolved[of "''what_if''" None] by (simp add: ex_what_if_parsed st)
  have chk: "checkDependencies ex_platform (ex_milestone ''ms-dc'' ''ep-4'' ''mt-dc'' 200)
     (Date (- 86399000)) ex_state
     = [\<lparr>c_type = dependency, severity = error,
         c_message = ''DC cannot be before EC (scheduled a date)'',
         affectedMilestones = [''ms-dc'', ''ms-ec''],
         suggestedResolution = Some ''Move EC earlier or schedule DC after a date''\<rparr>]"
    using ex_check_yesterday[of None] by (simp add: st)
  have found: "find (\<lambda>m. m_id m = m_id (ex_milestone ''ms-dc'' ''ep-4'' ''mt-dc'' 200))
                 (milestones ex_state) = Some (ex_milestone ''ms-dc'' ''ep-4'' ''mt-dc'' 200)"
    by (simp add: ex_defs)
  have same: "action (parseCommand ''move 304 dc to yesterday'') = ''move'' \<and>
      target (parseCommand ''move 304 dc to yesterday'')
        = target (parseCommand ''what if 304 dc slips to yesterday'') \<and>
      params (parseCommand ''move 304 dc to yesterday'')
        = params (parseCommand ''what if 304 dc slips to yesterday'')"
    by (simp add: ex_move_parsed ex_what_if_parsed)
  from what_if_is_a_dry_run[OF local act res, of ex_offline_backend] found same
  show ?thesis by (simp add: chk)
qed

text \<open>
  With a current project that is not the demo project the command is sent to the backend
  instead: here the what-if command resolves against the schedule, the backend is out of
  reach, and the result is a failure, against claim C5 as stated.
\<close>

theorem what_if_remote_counterexample:
  "action (parseCommand ''what if 304 dc slips to yesterday'') = ''what_if'' \<and>
   resolveTarget ex_platform (parseCommand ''what if 304 dc slips to yesterday'') ex_remote_state
     = Inr (hd (episodes ex_state), ex_type ''mt-dc'' ''DC'' 2 [''EC''],
            ex_milestone ''ms-dc'' ''ep-4'' ''mt-dc'' 200, Date (- 86399000)) \<and>
   \<not> success (fst (processCommand ex_platform ex_offline_backend
                     ''what if 304 dc slips to yesterday'' ex_remote_state))"
proof -
  have "remoteProject ex_remote_state = currentProject ex_remote_state"
    by (simp add: remoteProject_def ex_remote_state_def)
  then have "\<not> success (fst (processCommand ex_platform ex_offline_backend
                     ''what if 304 dc slips to yesterday'' ex_remote_state))"
    by (simp add: processCommand_def ex_remote_state_def ex_offline_backend_def failure_def)
  then show ?thesis
    using ex_resolved[of "''what_if''"] by (simp add: ex_what_if_parsed ex_remote_state_def)
qed

subsection \<open>Taking in a catalog\<close>

lemma acyclic_by_rank:
  fixes f :: "'a \<Rightarrow> nat"
  assumes "\<And>a b. (a, b) \<in> r \<Longrightarrow> f b < f a"
  shows "acyclic r"
proof -
  have "r \<subseteq> (measure f)\<inverse>" using assms by auto
  moreover have "acyclic ((measure f)\<inverse>)"
    using wf_measure[of f] by (simp add: wf_acyclic)
  ultimately show ?thesis by (rule acyclic_subset[rotated])
qed

lemma demo_edges:
  "prerequisiteEdges (demoMilestoneTypes P) =
     [(''DC'', ''EC''), (''NC1'', ''DC''), (''NC2'', ''NC1''), (''FPL'', ''NC2''),
      (''M/S'', ''FPL''), (''CC'', ''FPL''), (''MIX'', ''M/S''), (''MIX'', ''CC''),
      (''QC'', ''MIX''), (''D'', ''QC'')]"
  by (simp add: prerequisiteEdges_def demoMilestoneTypes_def demoType_def)

lemma acyclic_edges_by_rank:
  fixes f :: "'a \<Rightarrow> nat"
  assumes "list_all (\<lambda>(a, b). f b < f a) es"
  shows "acyclic (set es)"
  by (rule acyclic_by_rank[where f = f]) (use assms in \<open>auto simp: list_all_iff\<close>)

lemma demo_catalog_acyclic: "\<not> cyclicCatalog (demoMilestoneTypes P)"
proof -
  have "acyclic (set (prerequisiteEdges (demoMilestoneTypes P)))"
    unfolding demo_edges
    by (rule acyclic_edges_by_rank[where f = "\<lambda>c. case findIndex (\<lambda>x. x = c)
              [''EC'', ''DC'', ''NC1'', ''NC2'', ''FPL'', ''M/S'', ''CC'', ''MIX'', ''QC'', ''D''] of
            None \<Rightarrow> 0 | Some k \<Rightarrow> k"]) simp
  then show ?thesis by (simp only: cyclicCatalog_def not_not)
qed

lemma fetch_resolved_catalog:
  "get_project B projectId = Resolved project \<Longrightarrow>
   milestoneTypes (fetchProjectData P B projectId state)
     = map (milestoneTypeOfApi P) (orEmpty (ap_milestone_types project))"
  by (simp add: fetchProjectData_def)

lemma fetch_rejected_catalog:
  "get_project B projectId = Rejected e \<Longrightarrow>
   milestoneTypes (fetchProjectData P B projectId state) = demoMilestoneTypes P"
  by (simp add: fetchProjectData_def loadDemoData_def)

lemma edges_of_api:
  "prerequisiteEdges (map (milestoneTypeOfApi P) ts)
     = concat (map (\<lambda>t. map (\<lambda>c. (at_code t, c)) (orEmpty (at_requires_completion_of t))) ts)"
  by (induction ts) (simp_all add: prerequisiteEdges_def milestoneTypeOfApi_def)

text \<open>
  Claim C4, as the code has it. No path that takes in a catalog looks for cycles. When the
  backend answers, \<open>fetchProjectData\<close> stores the catalog of the answer as it is: the
  types in order, each with its code and its prerequisite list unchanged (an absent list
  read as empty), so the stored prerequisite relation is the relation sent, cyclic or not;
  no edge is dropped, nothing is rejected and no error is recorded. When the request
  fails, and in \<open>loadDemoData\<close>, the built-in catalog is stored, and that one has no
  cycle.
\<close>

theorem catalog_is_stored_unchecked:
  "(get_project B projectId = Resolved project \<longrightarrow>
      map mt_code (milestoneTypes (fetchProjectData P B projectId state))
        = map at_code (orEmpty (ap_milestone_types project)) \<and>
      map requiresCompletionOf (milestoneTypes (fetchProjectData P B projectId state))
        = map (\<lambda>t. orEmpty (at_requires_completion_of t)) (orEmpty (ap_milestone_types project)) \<and>
      prerequisiteEdges (milestoneTypes (fetchProjectData P B projectId state))
        = concat (map (\<lambda>t. map (\<lambda>c. (at_code t, c)) (orEmpty (at_requires_completion_of t)))
                    (orEmpty (ap_milestone_types project))) \<and>
      error_msg (fetchProjectData P B projectId state) = error_msg state) \<and>
   (get_project B projectId = Rejected e \<longrightarrow>
      milestoneTypes (fetchProjectData P B projectId state) = demoMilestoneTypes P) \<and>
   milestoneTypes (loadDemoData P state) = demoMilestoneTypes P \<and>
   \<not> cyclicCatalog (demoMilestoneTypes P)"
proof -
  have a: "map mt_code (map (milestoneTypeOfApi P) ts) = map at_code ts" for ts
    by (simp add: milestoneTypeOfApi_def comp_def)
  have b: "map requiresCompletionOf (map (milestoneTypeOfApi P) ts)
             = map (\<lambda>t. orEmpty (at_requires_completion_of t)) ts" for ts
    by (simp add: milestoneTypeOfApi_def comp_def)
  have c: "get_project B projectId = Resolved project \<Longrightarrow>
           error_msg (fetchProjectData P B projectId state) = error_msg state"
    by (simp add: fetchProjectData_def)
  have d: "milestoneTypes (loadDemoData P state) = demoMilestoneTypes P"
    by (simp add: loadDemoData_def)
  show ?thesis
    using a b c d edges_of_api fetch_resolved_catalog[of B projectId project P state]
      fetch_rejected_catalog[of B projectId e P state] demo_catalog_acyclic[of P]
    by simp
qed

theorem catalog_is_stored_unchecked_witness:
  "map mt_code (milestoneTypes (fetchProjectData ex_platform ex_cyclic_backend ''project-1'' ex_state))
     = [''A'', ''B''] \<and>
   map requiresCompletionOf
     (milestoneTypes (fetchProjectData ex_platform ex_cyclic_backend ''project-1'' ex_state))
     = [[''B''], [''A'']] \<and>
   milestoneTypes (fetchProjectData ex_platform ex_offline_backend ''project-1'' ex_state)
     = demoMilestoneTypes ex_platform"
proof -
  obtain project where p: "get_project ex_cyclic_backend ''project-1'' = Resolved project"
    and ts: "orEmpty (ap_milestone_types project)
               = [ex_api_type ''mt-a'' ''A'' [''B''], ex_api_type ''mt-b'' ''B'' [''A'']]"
    by (simp add: ex_cyclic_backend_def orEmpty_def)
  have r: "get_project ex_offline_backend ''project-1'' = Rejected (Some ''Network error'')"
    by (simp add: ex_offline_backend_def)
  from catalog_is_stored_unchecked
         [of ex_cyclic_backend "''project-1''" project ex_platform ex_state] p ts
  have a: "map mt_code (milestoneTypes (fetchProjectData ex_platform ex_cyclic_backend ''project-1'' ex_state))
     = [''A'', ''B'']"
    and b: "map requiresCompletionOf
     (milestoneTypes (fetchProjectData ex_platform ex_cyclic_backend ''project-1'' ex_state))
     = [[''B''], [''A'']]"
    by (simp_all add: ex_api_type_def orEmpty_def)
  from catalog_is_stored_unchecked
         [of ex_offline_backend "''project-1''" _ ex_platform ex_state "Some ''Network error''"] r
  have c: "milestoneTypes (fetchProjectData ex_platform ex_offline_backend ''project-1'' ex_state)
     = demoMilestoneTypes ex_platform" by simp
  from a b c show ?thesis by simp
qed

text \<open>
  A backend whose catalog has \<open>A\<close> require \<open>B\<close> and \<open>B\<close> require \<open>A\<close>: the store takes the
  catalog in, cycle and all, and records no error, against claim C4 as stated.
\<close>

theorem cyclic_catalog_counterexample:
  "cyclicCatalog (milestoneTypes (fetchProjectData ex_platform ex_cyclic_backend ''project-1'' ex_state)) \<and>
   map (\<lambda>mt. (mt_code mt, requiresCompletionOf mt))
     (milestoneTypes (fetchProjectData ex_platform ex_cyclic_backend ''project-1'' ex_state))
     = [(''A'', [''B'']), (''B'', [''A''])] \<and>
   error_msg (fetchProjectData ex_platform ex_cyclic_backend ''project-1'' ex_state) = None"
proof -
  have cat: "map (\<lambda>mt. (mt_code mt, requiresCompletionOf mt))
     (milestoneTypes (fetchProjectData ex_platform ex_cyclic_backend ''project-1'' ex_state))
     = [(''A'', [''B'']), (''B'', [''A''])]"
    by (simp add: fetchProjectData_def ex_cyclic_backend_def ex_api_type_def milestoneTypeOfApi_def
          orEmpty_def)
  have edges: "prerequisiteEdges
      (milestoneTypes (fetchProjectData ex_platform ex_cyclic_backend ''project-1'' ex_state))
      = [(''A'', ''B''), (''B'', ''A'')]"
    by (simp add: fetchProjectData_def ex_cyclic_backend_def ex_api_type_def milestoneTypeOfApi_def
          orEmpty_def prerequisiteEdges_def)
  have "(''A'', ''A'') \<in> (set [(''A'', ''B''), (''B'', ''A'')])\<^sup>+"
    by (rule trancl_trans[of _ "''B''"]) (rule r_into_trancl, simp)+
  then have cyc: "cyclicCatalog
      (milestoneTypes (fetchProjectData ex_platform ex_cyclic_backend ''project-1'' ex_state))"
    unfolding cyclicCatalog_def edges acyclic_def by blast
  have err: "error_msg (fetchProjectData ex_platform ex_cyclic_backend ''project-1'' ex_state) = None"
    by (simp add: fetchProjectData_def ex_cyclic_backend_def ex_state_def)
  from cyc cat err show ?thesis by blast
qed

subsection \<open>The date parser on day names\<close>

lemma findIndex_less: "findIndex p xs = Some i \<Longrightarrow> i < length xs"
  by (induction xs arbitrary: i) (auto split: if_splits)

lemma keyword_no_day:
  "findIndex (\<lambda>d. str_includes ''today'' d) daysOfWeek = None"
  "findIndex (\<lambda>d. str_includes ''tomorrow'' d) daysOfWeek = None"
  "findIndex (\<lambda>d. str_includes ''yesterday'' d) daysOfWeek = None"
  by code_simp+

lemma getDay_addDays:
  "getDay (addDays (Date t) k) = Some ((t div msPerDay + 4 + k) mod 7)"
proof -
  have "(t + k * msPerDay) div msPerDay = t div msPerDay + k"
    by (simp add: msPerDay_def)
  then show ?thesis by (simp add: add.commute add.left_commute)
qed


lemma day_arith:
  fixes w i :: int
  assumes "0 \<le> w" "w < 7" "0 \<le> i" "i < 7"
  shows "1 \<le> (if i - w \<le> 0 then i - w + 7 else i - w)"
    and "(if i - w \<le> 0 then i - w + 7 else i - w) \<le> 7"
    and "(w + (if i - w \<le> 0 then i - w + 7 else i - w)) mod 7 = i"
    and "1 \<le> j \<Longrightarrow> j < (if i - w \<le> 0 then i - w + 7 else i - w) \<Longrightarrow> (w + j) mod 7 \<noteq> i"
proof -
  show "1 \<le> (if i - w \<le> 0 then i - w + 7 else i - w)" using assms by simp
  show "(if i - w \<le> 0 then i - w + 7 else i - w) \<le> 7" using assms by simp
  show "(w + (if i - w \<le> 0 then i - w + 7 else i - w)) mod 7 = i" using assms by simp
  show "(w + j) mod 7 \<noteq> i"
    if "1 \<le> j" "j < (if i - w \<le> 0 then i - w + 7 else i - w)"
  proof (cases "i - w \<le> 0")
    case True
    with that assms have "i < w + j" "w + j < i + 7" by simp_all
    then show ?thesis by presburger
  next
    case False
    with that assms have "0 \<le> w + j" "w + j < i" by simp_all
    with assms show ?thesis by simp
  qed
qed


lemma getDay_range: "getDay (Date t) = Some w \<Longrightarrow> 0 \<le> w \<and> w < 7"
  by auto

lemma startsWith_iff: "startsWith s sub \<longleftrightarrow> (\<exists>post. s = sub @ post)"
  by (induction s sub rule: startsWith.induct) auto

lemma str_includes_iff: "str_includes s sub \<longleftrightarrow> (\<exists>pre post. s = pre @ sub @ post)"
proof (induction s)
  case Nil
  show ?case by auto
next
  case (Cons x s)
  show ?case
  proof
    assume "str_includes (x # s) sub"
    then consider "startsWith (x # s) sub" | "str_includes s sub" by auto
    then show "\<exists>pre post. x # s = pre @ sub @ post"
    proof cases
      case 1
      then obtain post where "x # s = sub @ post" unfolding startsWith_iff by blast
      then have "x # s = [] @ sub @ post" by simp
      then show ?thesis by blast
    next
      case 2
      then obtain pre post where "s = pre @ sub @ post" unfolding Cons.IH by blast
      then have "x # s = (x # pre) @ sub @ post" by simp
      then show ?thesis by blast
    qed
  next
    assume "\<exists>pre post. x # s = pre @ sub @ post"
    then obtain pre post where e: "x # s = pre @ sub @ post" by blast
    show "str_includes (x # s) sub"
    proof (cases pre)
      case Nil
      with e have "startsWith (x # s) sub" unfolding startsWith_iff by auto
      then show ?thesis by simp
    next
      case (Cons y pre')
      with e have "s = pre' @ sub @ post" by simp
      then have "str_includes s sub" unfolding Cons.IH by blast
      then show ?thesis by simp
    qed
  qed
qed

lemma rev_split:
  "u = rev (dropWhile p (rev u)) @ rev (takeWhile p (rev u))"
proof -
  have "rev (takeWhile p (rev u) @ dropWhile p (rev u)) = rev (rev u)"
    by (simp only: takeWhile_dropWhile_id)
  then show ?thesis by (simp only: rev_append rev_rev_ident)
qed

lemma trim_within: "\<exists>a b. s = a @ trim s @ b"
proof -
  have "s = takeWhile isSpace s @ dropWhile isSpace s" by simp
  also have "dropWhile isSpace s
      = trim s @ rev (takeWhile isSpace (rev (dropWhile isSpace s)))"
    unfolding trim_def by (rule rev_split)
  finally show ?thesis by blast
qed

lemma dropWhile_before:
  assumes "sub \<noteq> []" "\<not> p (hd sub)"
  shows "dropWhile p (pre @ sub @ post) = dropWhile p pre @ sub @ post"
proof -
  have "dropWhile p (sub @ post) = sub @ post" using assms by (cases sub) simp_all
  then show ?thesis by (simp add: dropWhile_append)
qed

lemma trim_around:
  assumes "sub \<noteq> []" "\<not> isSpace (hd sub)" "\<not> isSpace (last sub)"
  shows "trim (pre @ sub @ post) = dropWhile isSpace pre @ sub @ rev (dropWhile isSpace (rev post))"
proof -
  have r: "rev sub \<noteq> []" "\<not> isSpace (hd (rev sub))" using assms by (simp_all add: hd_rev)
  have "rev (dropWhile isSpace pre @ sub @ post) = rev post @ rev sub @ rev (dropWhile isSpace pre)"
    by simp
  then have "dropWhile isSpace (rev (dropWhile isSpace pre @ sub @ post))
      = dropWhile isSpace (rev post) @ rev sub @ rev (dropWhile isSpace pre)"
    using dropWhile_before[where p = isSpace and sub = "rev sub" and pre = "rev post"
            and post = "rev (dropWhile isSpace pre)", OF r] by simp
  then show ?thesis
    unfolding trim_def dropWhile_before[where p = isSpace and sub = sub, OF assms(1,2)] by simp
qed

lemma str_includes_trim:
  assumes "sub \<noteq> []" "\<not> isSpace (hd sub)" "\<not> isSpace (last sub)"
  shows "str_includes (trim s) sub = str_includes s sub"
proof
  assume "str_includes (trim s) sub"
  then obtain pre post where "trim s = pre @ sub @ post" unfolding str_includes_iff by blast
  moreover obtain a b where "s = a @ trim s @ b" using trim_within by blast
  ultimately have "s = (a @ pre) @ sub @ (post @ b)" by simp
  then show "str_includes s sub" unfolding str_includes_iff by blast
next
  assume "str_includes s sub"
  then obtain pre post where "s = pre @ sub @ post" unfolding str_includes_iff by blast
  then have "trim s = dropWhile isSpace pre @ sub @ rev (dropWhile isSpace (rev post))"
    using trim_around[OF assms] by simp
  then show "str_includes (trim s) sub" unfolding str_includes_iff by blast
qed

lemma day_names_trim:
  "findIndex (\<lambda>d. str_includes (trim s) d) daysOfWeek = findIndex (\<lambda>d. str_includes s d) daysOfWeek"
  "str_includes (trim s) ''next'' = str_includes s ''next''"
  by (simp_all add: daysOfWeek_def str_includes_trim isSpace_def)

lemma day_branch:
  assumes idx: "findIndex (\<lambda>d. str_includes (trim (toLowerCase text)) d) daysOfWeek = Some i"
  shows "parseDateReference P text (Date t) =
           Some (addDays (Date t)
             (let w = (t div msPerDay + 4) mod 7;
                  k = (if int i - w \<le> 0 then int i - w + 7 else int i - w)
              in if str_includes (trim (toLowerCase text)) ''next'' then k + 7 else k))"
proof -
  have "trim (toLowerCase text) \<noteq> ''today''" "trim (toLowerCase text) \<noteq> ''tomorrow''"
    "trim (toLowerCase text) \<noteq> ''yesterday''"
    using idx keyword_no_day by auto
  then show ?thesis
    by (simp add: parseDateReference_def Let_def idx)
qed

lemma friday_facts:
  "trim (toLowerCase ''Friday'') = ''friday''"
  "findIndex (\<lambda>d. str_includes ''friday'' d) daysOfWeek = Some 5"
  "str_includes ''friday'' ''next'' = False"
  by code_simp+

text \<open>
  Claim C6, as the code has it. Let a text, in lower case, contain a day name, and let
  \<open>i\<close> be the index of the first of the names Sunday to Saturday that it contains. For
  every reference date the parser then returns the reference date plus \<open>k\<close> days, or
  plus \<open>k + 7\<close> days when the text contains \<open>next\<close>, where \<open>k\<close>, from 1 to 7, is the
  distance to the first day strictly after the reference date that falls on day \<open>i\<close>: a
  reference date that is itself that day of the week gives a full week, not the date
  itself. For a reference date that is a Monday, \<open>Friday\<close> gives the date four days later.
\<close>

theorem day_name_resolves_to_next_occurrence:
  "(findIndex (\<lambda>d. str_includes (toLowerCase text) d) daysOfWeek = Some i \<longrightarrow>
      (\<exists>k. 1 \<le> k \<and> k \<le> 7 \<and>
           getDay (addDays (Date t) k) = Some (int i) \<and>
           (\<forall>j. 1 \<le> j \<and> j < k \<longrightarrow> getDay (addDays (Date t) j) \<noteq> Some (int i)) \<and>
           parseDateReference P text (Date t)
             = Some (addDays (Date t)
                 (if str_includes (toLowerCase text) ''next'' then k + 7 else k)))) \<and>
   (getDay (Date t) = Some 1 \<longrightarrow>
      parseDateReference P ''Friday'' (Date t) = Some (addDays (Date t) 4))"
proof (intro conjI impI)
  assume "findIndex (\<lambda>d. str_includes (toLowerCase text) d) daysOfWeek = Some i"
  then have idx: "findIndex (\<lambda>d. str_includes (trim (toLowerCase text)) d) daysOfWeek = Some i"
    by (simp only: day_names_trim)
  define w where "w = (t div msPerDay + 4) mod 7"
  define k where "k = (if int i - w \<le> 0 then int i - w + 7 else int i - w)"
  have w: "0 \<le> w" "w < 7" by (simp_all add: w_def)
  have i: "0 \<le> int i" "int i < 7"
    using findIndex_less[OF idx] by (simp_all add: daysOfWeek_def)
  note ar = day_arith[OF w i]
  have g: "getDay (addDays (Date t) j) = Some ((w + j) mod 7)" for j
    unfolding getDay_addDays w_def by (simp add: mod_add_left_eq)
  have k12: "1 \<le> k" "k \<le> 7" using ar(1,2) by (simp_all only: k_def)
  have k3: "(w + k) mod 7 = int i" using ar(3) by (simp only: k_def)
  have k4: "(w + j) mod 7 \<noteq> int i" if "1 \<le> j" "j < k" for j
    using ar(4)[of j] that unfolding k_def by blast
  note k12
  moreover have "getDay (addDays (Date t) k) = Some (int i)"
    by (simp only: g k3)
  moreover have "\<forall>j. 1 \<le> j \<and> j < k \<longrightarrow> getDay (addDays (Date t) j) \<noteq> Some (int i)"
  proof (intro allI impI)
    fix j assume "1 \<le> j \<and> j < k"
    then have "(w + j) mod 7 \<noteq> int i" using k4 by blast
    then show "getDay (addDays (Date t) j) \<noteq> Some (int i)"
      by (simp only: g option.inject not_False_eq_True)
  qed
  moreover have "parseDateReference P text (Date t)
             = Some (addDays (Date t)
                 (if str_includes (toLowerCase text) ''next'' then k + 7 else k))"
    using day_branch[OF idx, of P t] by (simp add: Let_def w_def k_def day_names_trim)
  ultimately show "\<exists>k. 1 \<le> k \<and> k \<le> 7 \<and>
           getDay (addDays (Date t) k) = Some (int i) \<and>
           (\<forall>j. 1 \<le> j \<and> j < k \<longrightarrow> getDay (addDays (Date t) j) \<noteq> Some (int i)) \<and>
           parseDateReference P text (Date t)
             = Some (addDays (Date t)
                 (if str_includes (toLowerCase text) ''next'' then k + 7 else k))"
    by blast
next
  assume "getDay (Date t) = Some 1"
  then have w: "(t div msPerDay + 4) mod 7 = 1" by simp
  have idx: "findIndex (\<lambda>d. str_includes (trim (toLowerCase ''Friday'')) d) daysOfWeek = Some 5"
    by (simp only: friday_facts)
  show "parseDateReference P ''Friday'' (Date t) = Some (addDays (Date t) 4)"
    using day_branch[OF idx, of P t] by (simp add: Let_def w friday_facts)
qed

lemma ex_monday:
  "getDay (Date 1704067200000) = Some 1"
  "parseDateReference ex_platform ''monday'' (Date 1704067200000) = Some (Date 1704672000000)"
  "addDays (Date 1704067200000) 4 = Date 1704412800000"
  "addDays (Date 1704067200000) 7 = Date 1704672000000"
  "toLowerCase ''next Friday'' = ''next friday''"
  "findIndex (\<lambda>d. str_includes ''next friday'' d) daysOfWeek = Some 5"
  "str_includes ''next friday'' ''next'' = True"
  by code_simp+

theorem day_name_resolves_to_next_occurrence_witness:
  "parseDateReference ex_platform ''Friday'' (Date 1704067200000) = Some (Date 1704412800000) \<and>
   (\<exists>k. 1 \<le> k \<and> k \<le> 7 \<and>
        getDay (addDays (Date 1704067200000) k) = Some 5 \<and>
        parseDateReference ex_platform ''next Friday'' (Date 1704067200000)
          = Some (addDays (Date 1704067200000) (k + 7)))"
proof -
  have idx: "findIndex (\<lambda>d. str_includes (toLowerCase ''next Friday'') d) daysOfWeek
               = Some 5"
    by (simp only: ex_monday)
  from day_name_resolves_to_next_occurrence[of "''next Friday''" 5 1704067200000 ex_platform]
  show ?thesis using idx ex_monday(1,3,5,7) by auto
qed

text \<open>
  1 January 2024 is a Monday; \<open>monday\<close> resolves to the Monday a week later, not to the
  reference date, which is the next Monday on or after it as claim C6 has it.
\<close>

theorem day_name_on_its_own_day_counterexample:
  "getDay (Date 1704067200000) = Some 1 \<and>
   findIndex (\<lambda>d. str_includes (toLowerCase ''monday'') d) daysOfWeek = Some 1 \<and>
   parseDateReference ex_platform ''monday'' (Date 1704067200000)
     = Some (addDays (Date 1704067200000) 7) \<and>
   parseDateReference ex_platform ''monday'' (Date 1704067200000) \<noteq> Some (Date 1704067200000)"
  by code_simp

subsection \<open>The date parser on slash-delimited dates\<close>

lemma slash_not_digit: "\<not> isDigit CHR ''/''"
  by (simp add: isDigit_def)

lemma digit_cases:
  "isDigit c \<Longrightarrow> c = CHR ''0'' \<or> c = CHR ''1'' \<or> c = CHR ''2'' \<or> c = CHR ''3'' \<or> c = CHR ''4'' \<or>
     c = CHR ''5'' \<or> c = CHR ''6'' \<or> c = CHR ''7'' \<or> c = CHR ''8'' \<or> c = CHR ''9''"
  by (simp add: isDigit_def)

lemma digit_not_space: "isDigit c \<Longrightarrow> \<not> isSpace c"
  by (drule digit_cases) (elim disjE; simp add: isSpace_def)

lemma digit_lower: "isDigit c \<Longrightarrow> toLowerChar c = c"
  by (drule digit_cases) (elim disjE; simp add: toLowerChar_def)

lemma slash_lower: "toLowerChar CHR ''/'' = CHR ''/''"
  by (simp add: toLowerChar_def)

lemma toLowerCase_digits:
  "list_all (\<lambda>c. isDigit c \<or> c = CHR ''/'') s \<Longrightarrow> toLowerCase s = s"
  by (induction s) (auto simp: toLowerCase_def digit_lower slash_lower)

lemma dropWhile_hd: "xs \<noteq> [] \<Longrightarrow> \<not> p (hd xs) \<Longrightarrow> dropWhile p xs = xs"
  by (cases xs) simp_all

lemma trim_no_space:
  assumes "s \<noteq> []" "\<not> isSpace (hd s)" "\<not> isSpace (last s)"
  shows "trim s = s"
proof -
  from assms(1,2) have a: "dropWhile isSpace s = s" by (rule dropWhile_hd)
  from assms(1) have "hd (rev s) = last s" by (simp add: hd_rev)
  with assms(1,3) have "dropWhile isSpace (rev s) = rev s" by (intro dropWhile_hd) simp_all
  with a show ?thesis by (simp add: trim_def)
qed

lemma startsWith_set: "startsWith s sub \<Longrightarrow> set sub \<subseteq> set s"
  by (induction s sub rule: startsWith.induct) auto

lemma str_includes_set: "str_includes s sub \<Longrightarrow> set sub \<subseteq> set s"
proof (induction s)
  case Nil
  then show ?case by simp
next
  case (Cons a s)
  from Cons.prems have "startsWith (a # s) sub \<or> str_includes s sub" by simp
  then show ?case
  proof
    assume "startsWith (a # s) sub"
    then show ?thesis by (rule startsWith_set)
  next
    assume "str_includes s sub"
    then have "set sub \<subseteq> set s" by (rule Cons.IH)
    then show ?thesis by auto
  qed
qed

lemma digits_shape:
  "list_all isDigit m \<Longrightarrow> length m = 1 \<or> length m = 2 \<Longrightarrow>
   (\<exists>a. m = [a] \<and> isDigit a) \<or> (\<exists>a b. m = [a, b] \<and> isDigit a \<and> isDigit b)"
  by (cases m; cases "tl m"; cases "tl (tl m)") auto

lemma year_shape:
  "list_all isDigit y \<Longrightarrow> length y = 2 \<or> length y = 4 \<Longrightarrow>
   (\<exists>a b. y = [a, b] \<and> isDigit a \<and> isDigit b) \<or>
   (\<exists>a b c d. y = [a, b, c, d] \<and> isDigit a \<and> isDigit b \<and> isDigit c \<and> isDigit d)"
  by (cases y; cases "tl y"; cases "tl (tl y)"; cases "tl (tl (tl y))"; cases "tl (tl (tl (tl y)))")
     auto

lemmas rx_simps = slashRe_def match_rep_def set_capture_def Let_def slash_not_digit

lemma slash_match_no_year:
  assumes "list_all isDigit m" "length m = 1 \<or> length m = 2"
      and "list_all isDigit d" "length d = 1 \<or> length d = 2"
  shows "\<exists>caps. regex_match False slashRe (m @ ''/'' @ d) = Some caps \<and>
           caps 1 = Some m \<and> caps 2 = Some d \<and> caps 3 = None"
  using digits_shape[OF assms(1,2)] digits_shape[OF assms(3,4)]
  by (elim disjE exE conjE; simp add: rx_simps)

lemma slash_match_year:
  assumes "list_all isDigit m" "length m = 1 \<or> length m = 2"
      and "list_all isDigit d" "length d = 1 \<or> length d = 2"
      and "list_all isDigit y" "length y = 2 \<or> length y = 4"
  shows "\<exists>caps. regex_match False slashRe (m @ ''/'' @ d @ ''/'' @ y) = Some caps \<and>
           caps 1 = Some m \<and> caps 2 = Some d \<and> caps 3 = Some y"
  using digits_shape[OF assms(1,2)] digits_shape[OF assms(3,4)] year_shape[OF assms(5,6)]
  by (elim disjE exE conjE; simp add: rx_simps)


lemma slash_text_plain:
  assumes all: "list_all (\<lambda>c. isDigit c \<or> c = CHR ''/'') s"
      and ne: "s \<noteq> []" and h: "isDigit (hd s)" and l: "isDigit (last s)"
  shows "trim (toLowerCase s) = s"
    and "s \<noteq> ''today''" and "s \<noteq> ''tomorrow''" and "s \<noteq> ''yesterday''"
    and "findIndex (\<lambda>d. str_includes s d) daysOfWeek = None"
    and "\<not> str_includes s ''next week''"
proof -
  show "trim (toLowerCase s) = s"
    using ne h l by (simp add: toLowerCase_digits[OF all] trim_no_space digit_not_space)
  have letter: "c \<notin> set s" if "\<not> isDigit c" "c \<noteq> CHR ''/''" for c
    using all that by (auto simp: list_all_iff)
  have y: "CHR ''y'' \<notin> set s" and n: "CHR ''n'' \<notin> set s" and t: "CHR ''t'' \<notin> set s"
    by (rule letter; simp add: isDigit_def)+
  show "s \<noteq> ''today''" "s \<noteq> ''tomorrow''" "s \<noteq> ''yesterday''" using t by auto
  have "\<not> str_includes s d" if "CHR ''y'' \<in> set d" for d
    using str_includes_set[of s d] that y by auto
  then show "findIndex (\<lambda>d. str_includes s d) daysOfWeek = None"
    by (simp add: daysOfWeek_def)
  show "\<not> str_includes s ''next week''"
    using str_includes_set[of s "''next week''"] n by auto
qed

lemma slash_branch:
  assumes "trim (toLowerCase s) = s"
      and "s \<noteq> ''today''" "s \<noteq> ''tomorrow''" "s \<noteq> ''yesterday''"
      and "findIndex (\<lambda>d. str_includes s d) daysOfWeek = None"
      and "\<not> str_includes s ''next week''"
      and "regex_match False slashRe s = Some caps"
  shows "parseDateReference P s r
           = Some (new_Date (case caps 3 of
                               Some y \<Rightarrow> Some (if length y = 2 then 2000 + parseInt y
                                                else parseInt y)
                             | None \<Rightarrow> getFullYear r)
                     (parseInt (grp caps 1) - 1) (parseInt (grp caps 2)))"
  unfolding parseDateReference_def assms(1) using assms(2-) by (simp add: Let_def)

lemma slash_date_text:
  assumes m: "list_all isDigit m" "length m = 1 \<or> length m = 2"
      and d: "list_all isDigit d" "length d = 1 \<or> length d = 2"
  shows "parseDateReference P (m @ ''/'' @ d) r
           = Some (new_Date (getFullYear r) (parseInt m - 1) (parseInt d))"
proof -
  let ?s = "m @ ''/'' @ d"
  from m d have ne: "m \<noteq> []" "d \<noteq> []" by auto
  have all: "list_all (\<lambda>c. isDigit c \<or> c = CHR ''/'') ?s"
    using m(1) d(1) by (auto simp: list_all_iff)
  have h: "isDigit (hd ?s)" using ne m(1) by (cases m) auto
  have l: "isDigit (last ?s)" using ne d(1) by (auto simp: list_all_iff)
  have n: "?s \<noteq> []" by simp
  note pl = slash_text_plain[OF all n h l]
  from slash_match_no_year[OF m d] obtain caps where
    c: "regex_match False slashRe ?s = Some caps" "caps 1 = Some m" "caps 2 = Some d" "caps 3 = None"
    by blast
  show ?thesis
    using slash_branch[OF pl c(1), of P r] c(2-) by (simp add: grp_def)
qed

lemma slash_date_text_year:
  assumes m: "list_all isDigit m" "length m = 1 \<or> length m = 2"
      and d: "list_all isDigit d" "length d = 1 \<or> length d = 2"
      and y: "list_all isDigit y" "length y = 2 \<or> length y = 4"
  shows "parseDateReference P (m @ ''/'' @ d @ ''/'' @ y) r
           = Some (new_Date (Some (if length y = 2 then 2000 + parseInt y else parseInt y))
                     (parseInt m - 1) (parseInt d))"
proof -
  let ?s = "m @ ''/'' @ d @ ''/'' @ y"
  from m d y have ne: "m \<noteq> []" "d \<noteq> []" "y \<noteq> []" by auto
  have all: "list_all (\<lambda>c. isDigit c \<or> c = CHR ''/'') ?s"
    using m(1) d(1) y(1) by (auto simp: list_all_iff)
  have h: "isDigit (hd ?s)" using ne m(1) by (cases m) auto
  have l: "isDigit (last ?s)" using ne y(1) by (auto simp: list_all_iff)
  have n: "?s \<noteq> []" by simp
  note pl = slash_text_plain[OF all n h l]
  from slash_match_year[OF m d y] obtain caps where
    c: "regex_match False slashRe ?s = Some caps" "caps 1 = Some m" "caps 2 = Some d"
       "caps 3 = Some y"
    by blast
  show ?thesis
    using slash_branch[OF pl c(1), of P r] c(2-) by (simp add: grp_def)
qed

lemma unrecognised_text:
  assumes "trim (toLowerCase text) \<notin> {''today'', ''tomorrow'', ''yesterday''}"
      and "findIndex (\<lambda>d. str_includes (trim (toLowerCase text)) d) daysOfWeek = None"
      and "\<not> str_includes (trim (toLowerCase text)) ''next week''"
      and "regex_match False slashRe (trim (toLowerCase text)) = None"
      and "parseISO P (trim (toLowerCase text)) \<in> {None, Some Invalid_Date}"
  shows "parseDateReference P text r = None"
  using assms by (auto simp: parseDateReference_def Let_def)

lemma slash_date_examples:
  "parseDateReference ex_platform ''12/20'' (new_Date (Some 2024) 0 1)
     = Some (new_Date (Some 2024) 11 20)"
  "getFullYear (new_Date (Some 2024) 11 20) = Some 2024"
  "getMonth (new_Date (Some 2024) 11 20) = Some 11"
  "getDate (new_Date (Some 2024) 11 20) = Some 20"
  "parseDateReference ex_platform ''12/20/24'' (Date 0) = Some (new_Date (Some 2024) 11 20)"
  "parseDateReference ex_platform ''12/20/2024'' (Date 0) = Some (new_Date (Some 2024) 11 20)"
  "parseDateReference ex_platform ''gibberish'' (new_Date (Some 2024) 0 1) = None"
  by code_simp+


text \<open>
  Claim C7 at the text \<open>1/1/0050\<close>. The text has the form M/D/YYYY and names 1 January of
  the year 50; the parser hands the year 50 to the date constructor, which reads a year
  from 0 to 99 as 1900 plus that year, and the date returned is 1 January 1950. For the
  other texts of the form (lemmas \<open>slash_date_text\<close>, \<open>slash_date_text_year\<close>) the year
  handed over is the reference date's, 2000 plus a two-digit year, or the four-digit year;
  a text that matches no form gives no date (lemma \<open>unrecognised_text\<close>).
\<close>

theorem slash_date_year_below_100:
  "parseDateReference ex_platform ''1/1/0050'' (new_Date (Some 2024) 0 1)
     = Some (new_Date (Some 50) 0 1) \<and>
   getFullYear (new_Date (Some 50) 0 1) = Some 1950 \<and>
   getMonth (new_Date (Some 50) 0 1) = Some 0 \<and>
   getDate (new_Date (Some 50) 0 1) = Some 1"
  by code_simp

end
